theory Spec2Isabelle
  imports Complex_Main
begin

section \<open>Timing constants of the garage-door handler\<close>

text \<open>
  The module constants of the handler, with the values the source gives them.
  JavaScript numbers are IEEE doubles; the model takes them as exact reals, so
  rounding, the infinities and the way NaN propagates through arithmetic are
  outside it. NaN is kept where it matters at the interface (see
  \<open>number_or_null\<close> below).
\<close>

definition DOOR_OPEN_TIME_SEC :: real where
  "DOOR_OPEN_TIME_SEC = 16.75"

definition DOOR_CLOSE_TIME_SEC :: real where
  "DOOR_CLOSE_TIME_SEC = 15.75"

definition DOOR_OPENER_SIGNAL_HOLD_TIME_SEC :: real where
  "DOOR_OPENER_SIGNAL_HOLD_TIME_SEC = 0.25"

definition MIN_TIME_BETWEEN_BUTTON_PRESSES_SEC :: real where
  "MIN_TIME_BETWEEN_BUTTON_PRESSES_SEC = 0.75"

definition DOOR_HEIGHT_FEET :: real where
  "DOOR_HEIGHT_FEET = 7.0833"

definition DOOR_MAX_AUTO_BOUNCE_BACK_HEIGHT_FEET :: real where
  "DOOR_MAX_AUTO_BOUNCE_BACK_HEIGHT_FEET = - 1"

definition DOOR_AUTO_BOUNCE_BACK_DELAY_SEC :: real where
  "DOOR_AUTO_BOUNCE_BACK_DELAY_SEC = 0.5"

definition DOOR_OPEN_RATE_FEET_PER_SEC :: real where
  "DOOR_OPEN_RATE_FEET_PER_SEC = DOOR_HEIGHT_FEET / DOOR_OPEN_TIME_SEC"

definition DOOR_CLOSE_RATE_FEET_PER_SEC :: real where
  "DOOR_CLOSE_RATE_FEET_PER_SEC = DOOR_HEIGHT_FEET / DOOR_CLOSE_TIME_SEC"

section \<open>Data model\<close>

text \<open>The type \<open>movement = 'up' | 'down' | 'to'\<close>.\<close>

datatype movement = Up | Down | To

text \<open>
  The type \<open>number | null\<close> of the amount handed to \<open>handleRequest\<close>. The HTTP
  layer passes \<open>parseFloat(undefined)\<close>, which is NaN, when the route has no
  distance, and the console listener passes \<open>null\<close>; both are falsy, as is 0.
\<close>

datatype number_or_null = Null | NaN | Num real

text \<open>The JavaScript expression \<open>n || d\<close> for a default \<open>d\<close> that is a number.\<close>

definition or_default :: "number_or_null \<Rightarrow> real \<Rightarrow> real" where
  "or_default n d = (case n of Null \<Rightarrow> d | NaN \<Rightarrow> d | Num x \<Rightarrow> (if x = 0 then d else x))"

text \<open>
  What the handler writes with \<open>this.log\<close>, one constructor for each message, with the
  values the message carries (the timestamp and class-name prefix are left out).
\<close>

datatype log_entry =
    Dashes
  | EmergencyStoppingDoor
  | PressedButtonToEmergencyStopDoor
  | EmergencyStoppedDoor
  | HandlingRequest
  | CurrentHeight real
  | MovementAndNumber movement number_or_null
  | MovingTo movement real
  | PressedButtonToGo movement
  | PressedButtonToBounceBack
  | PressedButtonToStopAboveBounceBack
  | PressedButtonToGoDown
  | PressedButtonToToggleOpenerState
  | PressedButtonToStopDoor
  | CurrentHeightAfterDoublePress real
  | MovingOver real
  | CurrentHeightAfterHandling real
  | RequestHandled
  | PressingButton
  | TurnedPinOff
  | TurnedPinOn

text \<open>
  The fields of class \<open>GarageDoorHandler\<close>. A timer handle is a natural number; the
  console is the list of messages logged so far, oldest first.
\<close>

record door =
  currentDoorHeight :: real
  lastDirectionWasUp :: bool
  doorIsMoving :: bool
  timeouts :: "nat list"
  console :: "log_entry list"

text \<open>
  The field initialisers of the class. The console starts empty: what the constructor
  logs while it sets up the pin is left out, as are \<open>turnOnLight\<close> and
  \<open>getCurrentDoorHeight\<close>, which do not touch the fields. A pin write that fails is
  outside the model.
\<close>

definition initial :: door where
  "initial = \<lparr> currentDoorHeight = 0, lastDirectionWasUp = False, doorIsMoving = False,
                timeouts = [], console = [] \<rparr>"

definition log_line :: "log_entry \<Rightarrow> door \<Rightarrow> door" where
  "log_line e s = s\<lparr> console := console s @ [e] \<rparr>"

text \<open>
  A pulse is one call of \<open>pressButton\<close>; each call logs \<open>Pressing button...\<close> once,
  so the pulses issued so far are counted on the console.
\<close>

definition pulses :: "door \<Rightarrow> nat" where
  "pulses s = count_list (console s) PressingButton"

section \<open>The handler's operations, run to completion\<close>

text \<open>
  Each asynchronous method is modelled by the state it leaves when its promise
  resolves with nothing else interleaved: every \<open>setTimeout\<close> callback it
  schedules fires, in order. The interleaving with an emergency stop is the subject of
  the event-loop model further down.
\<close>

definition correctHeightBounds :: "real \<Rightarrow> real" where
  "correctHeightBounds height = max 0 (min DOOR_HEIGHT_FEET height)"

definition calculateTimeToReachHeight :: "real \<Rightarrow> bool \<Rightarrow> bool \<Rightarrow> door \<Rightarrow> real" where
  "calculateTimeToReachHeight height shouldGoUp isStoppingEarly s =
     (let distance = \<bar>height - currentDoorHeight s\<bar>;
          rate = (if shouldGoUp then DOOR_OPEN_RATE_FEET_PER_SEC else DOOR_CLOSE_RATE_FEET_PER_SEC)
      in (distance / rate) - (if isStoppingEarly then DOOR_OPENER_SIGNAL_HOLD_TIME_SEC else 0))"

text \<open>
  \<open>pressButton\<close> in two halves, split where it waits for the hold time: the part that
  runs at the call (pin off) and the callback of the hold timer (pin on, the two flags).
  The pin write itself is the opaque actuation primitive; the console records it.
\<close>

definition pressButton_begin :: "door \<Rightarrow> door" where
  "pressButton_begin s = log_line TurnedPinOff (log_line PressingButton s)"

definition pressButton_release :: "door \<Rightarrow> door" where
  "pressButton_release s =
     (let s1 = log_line TurnedPinOn s;
          s2 = s1\<lparr> doorIsMoving := \<not> doorIsMoving s1 \<rparr>
      in if doorIsMoving s2 then s2\<lparr> lastDirectionWasUp := \<not> lastDirectionWasUp s2 \<rparr> else s2)"

definition pressButton :: "door \<Rightarrow> door" where
  "pressButton s = pressButton_release (pressButton_begin s)"

definition stop :: "door \<Rightarrow> door" where
  "stop s =
     (let s1 = log_line EmergencyStoppingDoor (log_line Dashes s);
          s2 = s1\<lparr> timeouts := [] \<rparr>;
          s3 = (if doorIsMoving s2
                then log_line PressedButtonToEmergencyStopDoor (pressButton s2)
                else s2)
      in log_line Dashes (log_line EmergencyStoppedDoor s3))"

text \<open>
  The two methods that wait on a registered timer push its handle on \<open>timeouts\<close> and
  the callback pops it before anything else reads the list; run to completion, which
  handle it is does not matter, and 0 stands for it.
\<close>

definition waitForDoorToGetAboveBounceBackHeight :: "door \<Rightarrow> door" where
  "waitForDoorToGetAboveBounceBackHeight s =
     (let timeToReachBottom = currentDoorHeight s / DOOR_CLOSE_RATE_FEET_PER_SEC;
          timeToStartGoingUp = timeToReachBottom + DOOR_AUTO_BOUNCE_BACK_DELAY_SEC;
          heightAboveBounceBackHeight = DOOR_MAX_AUTO_BOUNCE_BACK_HEIGHT_FEET * 1.1;
          timeToGetAboveBounceBackHeightSec =
            timeToStartGoingUp + (heightAboveBounceBackHeight / DOOR_OPEN_RATE_FEET_PER_SEC);
          s1 = s\<lparr> timeouts := timeouts s @ [0] \<rparr>;
          s2 = s1\<lparr> timeouts := butlast (timeouts s1) \<rparr>
      in s2\<lparr> currentDoorHeight := heightAboveBounceBackHeight \<rparr>)"

definition handleBounceBack :: "bool \<Rightarrow> door \<Rightarrow> door" where
  "handleBounceBack shouldGoUp s =
     (let s1 = log_line PressedButtonToBounceBack (pressButton s);
          s2 = waitForDoorToGetAboveBounceBackHeight s1
      in if shouldGoUp then s2
         else
           (let s3 = log_line PressedButtonToStopAboveBounceBack (pressButton s2);
                s4 = s3\<lparr> currentDoorHeight := currentDoorHeight s3
                       + DOOR_OPEN_RATE_FEET_PER_SEC * DOOR_AUTO_BOUNCE_BACK_DELAY_SEC \<rparr>
            in log_line PressedButtonToGoDown (pressButton s4)))"

definition conditionallyDoDoublePress :: "bool \<Rightarrow> door \<Rightarrow> door" where
  "conditionallyDoDoublePress shouldGoUp s =
     (let doDoublePress =
            (currentDoorHeight s > 0 \<and> currentDoorHeight s < DOOR_HEIGHT_FEET
             \<and> shouldGoUp = lastDirectionWasUp s)
      in if \<not> doDoublePress then s
         else
           (let s1 = log_line PressedButtonToToggleOpenerState (pressButton s);
                rate = (if shouldGoUp then DOOR_OPEN_RATE_FEET_PER_SEC
                        else DOOR_CLOSE_RATE_FEET_PER_SEC * - 1);
                s2 = s1\<lparr> currentDoorHeight := currentDoorHeight s1
                       + MIN_TIME_BETWEEN_BUTTON_PRESSES_SEC * rate \<rparr>;
                s3 = log_line PressedButtonToStopDoor (pressButton s2);
                s4 = s3\<lparr> currentDoorHeight := currentDoorHeight s3
                       + DOOR_OPENER_SIGNAL_HOLD_TIME_SEC * rate \<rparr>
            in log_line (CurrentHeightAfterDoublePress (currentDoorHeight s4)) s4))"


definition moveToFinalHeight :: "real \<Rightarrow> bool \<Rightarrow> door \<Rightarrow> door" where
  "moveToFinalHeight height shouldGoUp s =
     (let isStoppingEarly = (height < DOOR_HEIGHT_FEET \<and> height > 0);
          timeToReachHeightSec = calculateTimeToReachHeight height shouldGoUp isStoppingEarly s;
          s1 = log_line (MovingOver timeToReachHeightSec) s;
          s2 = s1\<lparr> timeouts := timeouts s1 @ [0] \<rparr>;
          s3 = s2\<lparr> timeouts := butlast (timeouts s2) \<rparr>;
          s4 = (if isStoppingEarly then log_line PressedButtonToStopDoor (pressButton s3) else s3);
          s5 = s4\<lparr> currentDoorHeight := height \<rparr>
      in log_line RequestHandled (log_line (CurrentHeightAfterHandling (currentDoorHeight s5)) s5))"

text \<open>
  The parameter \<open>movement\<close> of \<open>handleHeightRequest\<close> is overwritten before it is read;
  it is kept as the source has it.
\<close>

definition handleHeightRequest :: "movement \<Rightarrow> real \<Rightarrow> door \<Rightarrow> door" where
  "handleHeightRequest movement0 height0 s =
     (let height = correctHeightBounds height0;
          shouldGoUp = (height > currentDoorHeight s);
          movement = (if shouldGoUp then Up else Down);
          s1 = log_line (MovingTo movement height) s;
          willBounceBack =
            (currentDoorHeight s1 \<le> DOOR_MAX_AUTO_BOUNCE_BACK_HEIGHT_FEET
             \<and> currentDoorHeight s1 > 0 \<and> \<not> lastDirectionWasUp s1);
          s2 = (if willBounceBack then handleBounceBack shouldGoUp s1
                else log_line (PressedButtonToGo movement)
                       (pressButton (conditionallyDoDoublePress shouldGoUp s1)))
      in moveToFinalHeight height shouldGoUp s2)"

definition handleDistanceRequest :: "movement \<Rightarrow> number_or_null \<Rightarrow> door \<Rightarrow> door" where
  "handleDistanceRequest movement distance s =
     (let calculatedDistance =
            or_default distance DOOR_HEIGHT_FEET * (if movement = Up then 1 else - 1)
      in handleHeightRequest To (currentDoorHeight s + calculatedDistance) s)"

definition handleRequest :: "movement \<Rightarrow> number_or_null \<Rightarrow> door \<Rightarrow> door" where
  "handleRequest movement number s =
     (let s1 = log_line HandlingRequest s;
          s2 = log_line (CurrentHeight (currentDoorHeight s1)) s1;
          s3 = log_line (MovementAndNumber movement number) s2
      in if movement = To then handleHeightRequest movement (or_default number 0) s3
         else handleDistanceRequest movement number s3)"

text \<open>A sequence of requests, each awaited before the next is submitted.\<close>

fun handleRequests :: "(movement \<times> number_or_null) list \<Rightarrow> door \<Rightarrow> door" where
  "handleRequests [] s = s"
| "handleRequests ((movement, number) # rs) s = handleRequests rs (handleRequest movement number s)"

text \<open>
  What a request has written on the console since a given earlier state. Every operation
  only appends to the console.
\<close>

definition logged_since :: "door \<Rightarrow> door \<Rightarrow> log_entry list" where
  "logged_since s s' = drop (length (console s)) (console s')"

section \<open>The bounce-back threshold as a parameter\<close>

text \<open>
  The source marks \<open>DOOR_MAX_AUTO_BOUNCE_BACK_HEIGHT_FEET\<close> as a value still to be
  measured and ships \<open>- 1\<close> in its place. The three methods that read the constant
  are given here once more with the threshold as the argument \<open>bounceBackHeight\<close>, so
  that the decision they take can be stated for every threshold; nothing else differs
  from the definitions above, and at the shipped value they are those definitions.
\<close>

definition waitForDoorToGetAboveBounceBackHeight_at :: "real \<Rightarrow> door \<Rightarrow> door" where
  "waitForDoorToGetAboveBounceBackHeight_at bounceBackHeight s =
     (let timeToReachBottom = currentDoorHeight s / DOOR_CLOSE_RATE_FEET_PER_SEC;
          timeToStartGoingUp = timeToReachBottom + DOOR_AUTO_BOUNCE_BACK_DELAY_SEC;
          heightAboveBounceBackHeight = bounceBackHeight * 1.1;
          timeToGetAboveBounceBackHeightSec =
            timeToStartGoingUp + (heightAboveBounceBackHeight / DOOR_OPEN_RATE_FEET_PER_SEC);
          s1 = s\<lparr> timeouts := timeouts s @ [0] \<rparr>;
          s2 = s1\<lparr> timeouts := butlast (timeouts s1) \<rparr>
      in s2\<lparr> currentDoorHeight := heightAboveBounceBackHeight \<rparr>)"

definition handleBounceBack_at :: "real \<Rightarrow> bool \<Rightarrow> door \<Rightarrow> door" where
  "handleBounceBack_at bounceBackHeight shouldGoUp s =
     (let s1 = log_line PressedButtonToBounceBack (pressButton s);
          s2 = waitForDoorToGetAboveBounceBackHeight_at bounceBackHeight s1
      in if shouldGoUp then s2
         else
           (let s3 = log_line PressedButtonToStopAboveBounceBack (pressButton s2);
                s4 = s3\<lparr> currentDoorHeight := currentDoorHeight s3
                       + DOOR_OPEN_RATE_FEET_PER_SEC * DOOR_AUTO_BOUNCE_BACK_DELAY_SEC \<rparr>
            in log_line PressedButtonToGoDown (pressButton s4)))"

definition handleHeightRequest_at :: "real \<Rightarrow> movement \<Rightarrow> real \<Rightarrow> door \<Rightarrow> door" where
  "handleHeightRequest_at bounceBackHeight movement0 height0 s =
     (let height = correctHeightBounds height0;
          shouldGoUp = (height > currentDoorHeight s);
          movement = (if shouldGoUp then Up else Down);
          s1 = log_line (MovingTo movement height) s;
          willBounceBack =
            (currentDoorHeight s1 \<le> bounceBackHeight
             \<and> currentDoorHeight s1 > 0 \<and> \<not> lastDirectionWasUp s1);
          s2 = (if willBounceBack then handleBounceBack_at bounceBackHeight shouldGoUp s1
                else log_line (PressedButtonToGo movement)
                       (pressButton (conditionallyDoDoublePress shouldGoUp s1)))
      in moveToFinalHeight height shouldGoUp s2)"

text \<open>
  With a threshold of one foot, three requests on a new handler (to half a foot, to 2
  feet, back to half a foot) leave the door half a foot up, at rest and latched down:
  in the bounce-back zone.
\<close>

definition half_foot_latched_down :: door where
  "half_foot_latched_down =
     handleHeightRequest_at 1 To (1 / 2)
       (handleHeightRequest_at 1 To 2 (handleHeightRequest_at 1 To (1 / 2) initial))"

section \<open>The handler's methods as scripts\<close>

text \<open>
  An \<open>async\<close> method gives control back to the event loop at each timer it waits on,
  and an emergency stop can arrive there. To follow that, the body of each method is
  also written as the list of actions it performs, in order. The conditions that choose
  a branch (\<open>willBounceBack\<close>, \<open>doDoublePress\<close>, \<open>shouldGoUp\<close>) are evaluated when
  the method is called, before its first wait, so the script is fixed by the state at
  the call; the actions that read or change a field do so when they run.
\<close>

datatype action =
    Press
  | Say log_entry
  | SayHeightAfterDoublePress
  | SayHeightAfterHandling
  | AddHeight real
  | SetHeight real
  | ClearTimeouts
  | AwaitAboveBounceBackHeight
  | MoveToFinalHeight real bool

text \<open>The effect of one action when nothing is interleaved with it.\<close>

fun perform :: "action \<Rightarrow> door \<Rightarrow> door" where
  "perform Press s = pressButton s"
| "perform (Say e) s = log_line e s"
| "perform SayHeightAfterDoublePress s =
     log_line (CurrentHeightAfterDoublePress (currentDoorHeight s)) s"
| "perform SayHeightAfterHandling s =
     log_line (CurrentHeightAfterHandling (currentDoorHeight s)) s"
| "perform (AddHeight d) s = s\<lparr> currentDoorHeight := currentDoorHeight s + d \<rparr>"
| "perform (SetHeight h) s = s\<lparr> currentDoorHeight := h \<rparr>"
| "perform ClearTimeouts s = s\<lparr> timeouts := [] \<rparr>"
| "perform AwaitAboveBounceBackHeight s = waitForDoorToGetAboveBounceBackHeight s"
| "perform (MoveToFinalHeight height shouldGoUp) s = moveToFinalHeight height shouldGoUp s"

definition run_script :: "action list \<Rightarrow> door \<Rightarrow> door" where
  "run_script k s = fold perform k s"

definition conditionallyDoDoublePress_script :: "bool \<Rightarrow> door \<Rightarrow> action list" where
  "conditionallyDoDoublePress_script shouldGoUp s =
     (let doDoublePress =
            (currentDoorHeight s > 0 \<and> currentDoorHeight s < DOOR_HEIGHT_FEET
             \<and> shouldGoUp = lastDirectionWasUp s)
      in if \<not> doDoublePress then []
         else
           (let rate = (if shouldGoUp then DOOR_OPEN_RATE_FEET_PER_SEC
                        else DOOR_CLOSE_RATE_FEET_PER_SEC * - 1)
            in [Press, Say PressedButtonToToggleOpenerState,
                AddHeight (MIN_TIME_BETWEEN_BUTTON_PRESSES_SEC * rate),
                Press, Say PressedButtonToStopDoor,
                AddHeight (DOOR_OPENER_SIGNAL_HOLD_TIME_SEC * rate),
                SayHeightAfterDoublePress]))"

definition handleBounceBack_script :: "bool \<Rightarrow> action list" where
  "handleBounceBack_script shouldGoUp =
     [Press, Say PressedButtonToBounceBack, AwaitAboveBounceBackHeight]
     @ (if shouldGoUp then []
        else [Press, Say PressedButtonToStopAboveBounceBack,
              AddHeight (DOOR_OPEN_RATE_FEET_PER_SEC * DOOR_AUTO_BOUNCE_BACK_DELAY_SEC),
              Press, Say PressedButtonToGoDown])"

definition handleHeightRequest_script :: "movement \<Rightarrow> real \<Rightarrow> door \<Rightarrow> action list" where
  "handleHeightRequest_script movement0 height0 s =
     (let height = correctHeightBounds height0;
          shouldGoUp = (height > currentDoorHeight s);
          movement = (if shouldGoUp then Up else Down);
          willBounceBack =
            (currentDoorHeight s \<le> DOOR_MAX_AUTO_BOUNCE_BACK_HEIGHT_FEET
             \<and> currentDoorHeight s > 0 \<and> \<not> lastDirectionWasUp s)
      in [Say (MovingTo movement height)]
         @ (if willBounceBack then handleBounceBack_script shouldGoUp
            else conditionallyDoDoublePress_script shouldGoUp s
                 @ [Press, Say (PressedButtonToGo movement)])
         @ [MoveToFinalHeight height shouldGoUp])"

definition handleDistanceRequest_script :: "movement \<Rightarrow> number_or_null \<Rightarrow> door \<Rightarrow> action list" where
  "handleDistanceRequest_script movement distance s =
     (let calculatedDistance =
            or_default distance DOOR_HEIGHT_FEET * (if movement = Up then 1 else - 1)
      in handleHeightRequest_script To (currentDoorHeight s + calculatedDistance) s)"

definition handleRequest_script :: "movement \<Rightarrow> number_or_null \<Rightarrow> door \<Rightarrow> action list" where
  "handleRequest_script movement number s =
     [Say HandlingRequest, Say (CurrentHeight (currentDoorHeight s)),
      Say (MovementAndNumber movement number)]
     @ (if movement = To then handleHeightRequest_script movement (or_default number 0) s
        else handleDistanceRequest_script movement number s)"

definition stop_script :: "door \<Rightarrow> action list" where
  "stop_script s =
     [Say Dashes, Say EmergencyStoppingDoor, ClearTimeouts]
     @ (if doorIsMoving s then [Press, Say PressedButtonToEmergencyStopDoor] else [])
     @ [Say EmergencyStoppedDoor, Say Dashes]"

text \<open>
  What the callback of \<open>moveToFinalHeight\<close> does once its timer has fired and it has
  popped its handle.
\<close>

definition completion :: "real \<Rightarrow> action list" where
  "completion height =
     (if height < DOOR_HEIGHT_FEET \<and> height > 0 then [Press, Say PressedButtonToStopDoor] else [])
     @ [SetHeight height, SayHeightAfterHandling, Say RequestHandled]"

text \<open>A measure on scripts: the completion of a move is shorter than the move weighs.\<close>

fun weight :: "action \<Rightarrow> nat" where
  "weight (MoveToFinalHeight height shouldGoUp) = 6"
| "weight a = 1"

section \<open>The event loop\<close>

text \<open>
  The callbacks that the handler passes to \<open>setTimeout\<close>, each with the rest of the
  script that runs after it: the two timers of \<open>pressButton\<close> (hold, then spacing), the
  timer of \<open>waitForDoorToGetAboveBounceBackHeight\<close> and the timer of
  \<open>moveToFinalHeight\<close>. Only the last two put their handle on \<open>timeouts\<close>.
\<close>

datatype callback =
    ButtonHeld "action list"
  | ButtonSpaced "action list"
  | AboveBounceBackHeight real "action list"
  | FinalHeight real bool "action list"

text \<open>
  The handler object together with the runtime's timer queue: the time in seconds, the
  next fresh timer handle, and the pending timers as handle, due time and callback.
\<close>

record machine =
  handler :: door
  clock :: real
  next_handle :: nat
  timers :: "(nat \<times> real \<times> callback) list"

definition started :: machine where
  "started = \<lparr> handler = initial, clock = 0, next_handle = 0, timers = [] \<rparr>"

text \<open>
  \<open>setTimeout\<close> with the delay in seconds. The runtime raises a delay below one
  millisecond to one millisecond, so a timer with a zero or negative delay still fires;
  its truncation of the delay to whole milliseconds is left out.
\<close>

definition setTimeout :: "callback \<Rightarrow> real \<Rightarrow> machine \<Rightarrow> machine" where
  "setTimeout cb delaySec m =
     m\<lparr> next_handle := Suc (next_handle m),
        timers := timers m @ [(next_handle m, clock m + max delaySec 0.001, cb)] \<rparr>"

text \<open>\<open>this.timeouts.push(setTimeout(...))\<close> and \<open>this.timeouts.pop()\<close>.\<close>

definition push_timeout :: "callback \<Rightarrow> real \<Rightarrow> machine \<Rightarrow> machine" where
  "push_timeout cb delaySec m =
     (setTimeout cb delaySec m)
       \<lparr> handler := (handler m)\<lparr> timeouts := timeouts (handler m) @ [next_handle m] \<rparr> \<rparr>"

definition pop_timeout :: "door \<Rightarrow> door" where
  "pop_timeout s = s\<lparr> timeouts := butlast (timeouts s) \<rparr>"

text \<open>
  The loop of \<open>stop\<close> that calls \<open>clearTimeout\<close> on every handle in \<open>timeouts\<close>,
  followed by \<open>this.timeouts = []\<close>.
\<close>

definition clearTimeouts :: "machine \<Rightarrow> machine" where
  "clearTimeouts m =
     m\<lparr> timers := filter (\<lambda>t. fst t \<notin> set (timeouts (handler m))) (timers m),
        handler := (handler m)\<lparr> timeouts := [] \<rparr> \<rparr>"

text \<open>Running a script until it waits on a timer or ends.\<close>

fun exec :: "action list \<Rightarrow> machine \<Rightarrow> machine" where
  "exec [] m = m"
| "exec (Press # k) m =
     setTimeout (ButtonHeld k) DOOR_OPENER_SIGNAL_HOLD_TIME_SEC
       (m\<lparr> handler := pressButton_begin (handler m) \<rparr>)"
| "exec (ClearTimeouts # k) m = exec k (clearTimeouts m)"
| "exec (AwaitAboveBounceBackHeight # k) m =
     (let timeToReachBottom = currentDoorHeight (handler m) / DOOR_CLOSE_RATE_FEET_PER_SEC;
          timeToStartGoingUp = timeToReachBottom + DOOR_AUTO_BOUNCE_BACK_DELAY_SEC;
          heightAboveBounceBackHeight = DOOR_MAX_AUTO_BOUNCE_BACK_HEIGHT_FEET * 1.1;
          timeToGetAboveBounceBackHeightSec =
            timeToStartGoingUp + (heightAboveBounceBackHeight / DOOR_OPEN_RATE_FEET_PER_SEC)
      in push_timeout (AboveBounceBackHeight heightAboveBounceBackHeight k)
           timeToGetAboveBounceBackHeightSec m)"
| "exec (MoveToFinalHeight height shouldGoUp # k) m =
     (let isStoppingEarly = (height < DOOR_HEIGHT_FEET \<and> height > 0);
          timeToReachHeightSec =
            calculateTimeToReachHeight height shouldGoUp isStoppingEarly (handler m);
          m1 = m\<lparr> handler := log_line (MovingOver timeToReachHeightSec) (handler m) \<rparr>
      in push_timeout (FinalHeight height isStoppingEarly k) timeToReachHeightSec m1)"
| "exec (a # k) m = exec k (m\<lparr> handler := perform a (handler m) \<rparr>)"

text \<open>Running a callback whose timer has fired.\<close>

fun fire :: "callback \<Rightarrow> machine \<Rightarrow> machine" where
  "fire (ButtonHeld k) m =
     setTimeout (ButtonSpaced k) MIN_TIME_BETWEEN_BUTTON_PRESSES_SEC
       (m\<lparr> handler := pressButton_release (handler m) \<rparr>)"
| "fire (ButtonSpaced k) m = exec k m"
| "fire (AboveBounceBackHeight heightAboveBounceBackHeight k) m =
     exec k (m\<lparr> handler := (pop_timeout (handler m))
                  \<lparr> currentDoorHeight := heightAboveBounceBackHeight \<rparr> \<rparr>)"
| "fire (FinalHeight height isStoppingEarly k) m =
     exec ((if isStoppingEarly then [Press, Say PressedButtonToStopDoor] else [])
           @ [SetHeight height, SayHeightAfterHandling, Say RequestHandled] @ k)
       (m\<lparr> handler := pop_timeout (handler m) \<rparr>)"

text \<open>The pending timer that is due first; among equal due times, the one set first.\<close>

fun earliest ::
  "nat \<times> real \<times> callback \<Rightarrow> (nat \<times> real \<times> callback) list \<Rightarrow> nat \<times> real \<times> callback" where
  "earliest t [] = t"
| "earliest t (u # us) = earliest (if fst (snd u) < fst (snd t) then u else t) us"

text \<open>One turn of the loop: the next timer fires. With no timer pending nothing happens.\<close>

definition step :: "machine \<Rightarrow> machine option" where
  "step m =
     (case timers m of
        [] \<Rightarrow> None
      | t # ts \<Rightarrow>
          (let due = earliest t ts
           in Some (fire (snd (snd due))
                      (m\<lparr> clock := fst (snd due), timers := remove1 due (timers m) \<rparr>))))"

fun steps :: "nat \<Rightarrow> machine \<Rightarrow> machine option" where
  "steps 0 m = Some m"
| "steps (Suc n) m = (case step m of None \<Rightarrow> None | Some m' \<Rightarrow> steps n m')"

text \<open>
  A call from outside that arrives at time \<open>t\<close>: it can only arrive when the timers due
  by then have fired.
\<close>

definition arrive :: "real \<Rightarrow> action list \<Rightarrow> machine \<Rightarrow> machine option" where
  "arrive t k m =
     (if clock m \<le> t \<and> list_all (\<lambda>u. t < fst (snd u)) (timers m)
      then Some (exec k (m\<lparr> clock := t \<rparr>)) else None)"

definition call_handleRequest ::
  "real \<Rightarrow> movement \<Rightarrow> number_or_null \<Rightarrow> machine \<Rightarrow> machine option" where
  "call_handleRequest t movement number m =
     arrive t (handleRequest_script movement number (handler m)) m"

definition call_stop :: "real \<Rightarrow> machine \<Rightarrow> machine option" where
  "call_stop t m = arrive t (stop_script (handler m)) m"

text \<open>What is read off a machine state: tracked height, moving flag, console, pending timers.\<close>

definition observe :: "machine \<Rightarrow> real \<times> bool \<times> log_entry list \<times> nat" where
  "observe m =
     (currentDoorHeight (handler m), doorIsMoving (handler m), console (handler m),
      length (timers m))"

section \<open>Projections of the operations\<close>

lemma log_line_simps:
  "currentDoorHeight (log_line e s) = currentDoorHeight s"
  "lastDirectionWasUp (log_line e s) = lastDirectionWasUp s"
  "doorIsMoving (log_line e s) = doorIsMoving s"
  "timeouts (log_line e s) = timeouts s"
  "console (log_line e s) = console s @ [e]"
  by (simp_all add: log_line_def)

lemma pulses_log_line:
  "pulses (log_line e s) = (if e = PressingButton then Suc (pulses s) else pulses s)"
  by (simp add: pulses_def log_line_def)

lemma pulses_update:
  "pulses (s\<lparr> currentDoorHeight := h \<rparr>) = pulses s"
  "pulses (s\<lparr> timeouts := ts \<rparr>) = pulses s"
  "pulses (s\<lparr> doorIsMoving := b \<rparr>) = pulses s"
  "pulses (s\<lparr> lastDirectionWasUp := b \<rparr>) = pulses s"
  by (simp_all add: pulses_def)

lemma pressButton_simps:
  "doorIsMoving (pressButton s) = (\<not> doorIsMoving s)"
  "lastDirectionWasUp (pressButton s) =
     (if doorIsMoving s then lastDirectionWasUp s else \<not> lastDirectionWasUp s)"
  "currentDoorHeight (pressButton s) = currentDoorHeight s"
  "timeouts (pressButton s) = timeouts s"
  "console (pressButton s) = console s @ [PressingButton, TurnedPinOff, TurnedPinOn]"
  by (simp_all add: pressButton_def pressButton_begin_def pressButton_release_def
      log_line_def Let_def)

lemma pulses_pressButton: "pulses (pressButton s) = Suc (pulses s)"
  by (simp add: pulses_def pressButton_simps)

lemma pressButton_even_moving: "doorIsMoving ((pressButton ^^ (2 * n)) s) = doorIsMoving s"
  by (induction n) (simp_all add: pressButton_simps)

lemma rates_differ: "DOOR_OPEN_RATE_FEET_PER_SEC \<noteq> DOOR_CLOSE_RATE_FEET_PER_SEC"
  by (simp add: DOOR_OPEN_RATE_FEET_PER_SEC_def DOOR_CLOSE_RATE_FEET_PER_SEC_def
      DOOR_HEIGHT_FEET_def DOOR_OPEN_TIME_SEC_def DOOR_CLOSE_TIME_SEC_def)

text \<open>
  With the threshold the source ships, \<open>- 1\<close>, no height is both at or below the
  threshold and above zero: \<open>willBounceBack\<close> is false in every state.
\<close>

lemma never_bounces:
  "\<not> (currentDoorHeight s \<le> DOOR_MAX_AUTO_BOUNCE_BACK_HEIGHT_FEET
      \<and> currentDoorHeight s > 0 \<and> \<not> lastDirectionWasUp s)"
  by (simp add: DOOR_MAX_AUTO_BOUNCE_BACK_HEIGHT_FEET_def)

lemma conditionallyDoDoublePress_simps:
  "doorIsMoving (conditionallyDoDoublePress up s) = doorIsMoving s"
  "lastDirectionWasUp (conditionallyDoDoublePress up s) =
     (if currentDoorHeight s > 0 \<and> currentDoorHeight s < DOOR_HEIGHT_FEET
         \<and> up = lastDirectionWasUp s
      then \<not> lastDirectionWasUp s else lastDirectionWasUp s)"
  "timeouts (conditionallyDoDoublePress up s) = timeouts s"
  "pulses (conditionallyDoDoublePress up s) =
     (if currentDoorHeight s > 0 \<and> currentDoorHeight s < DOOR_HEIGHT_FEET
         \<and> up = lastDirectionWasUp s
      then pulses s + 2 else pulses s)"
  "currentDoorHeight (conditionallyDoDoublePress up s) =
     (if currentDoorHeight s > 0 \<and> currentDoorHeight s < DOOR_HEIGHT_FEET
         \<and> up = lastDirectionWasUp s
      then currentDoorHeight s
           + MIN_TIME_BETWEEN_BUTTON_PRESSES_SEC
               * (if up then DOOR_OPEN_RATE_FEET_PER_SEC else - DOOR_CLOSE_RATE_FEET_PER_SEC)
           + DOOR_OPENER_SIGNAL_HOLD_TIME_SEC
               * (if up then DOOR_OPEN_RATE_FEET_PER_SEC else - DOOR_CLOSE_RATE_FEET_PER_SEC)
      else currentDoorHeight s)"
  by (simp_all add: conditionallyDoDoublePress_def Let_def log_line_simps pressButton_simps
      pulses_log_line pulses_update pulses_pressButton)

lemma conditionallyDoDoublePress_console:
  "console (conditionallyDoDoublePress up s) =
     console s
     @ (if currentDoorHeight s > 0 \<and> currentDoorHeight s < DOOR_HEIGHT_FEET
           \<and> up = lastDirectionWasUp s
        then [PressingButton, TurnedPinOff, TurnedPinOn, PressedButtonToToggleOpenerState,
              PressingButton, TurnedPinOff, TurnedPinOn, PressedButtonToStopDoor,
              CurrentHeightAfterDoublePress (currentDoorHeight (conditionallyDoDoublePress up s))]
        else [])"
  by (simp add: conditionallyDoDoublePress_def Let_def log_line_simps pressButton_simps)

lemma handleBounceBack_console:
  "console (handleBounceBack up s) =
     console s @ [PressingButton, TurnedPinOff, TurnedPinOn, PressedButtonToBounceBack]
     @ (if up then []
        else [PressingButton, TurnedPinOff, TurnedPinOn, PressedButtonToStopAboveBounceBack,
              PressingButton, TurnedPinOff, TurnedPinOn, PressedButtonToGoDown])"
  by (simp add: handleBounceBack_def Let_def log_line_simps pressButton_simps
      waitForDoorToGetAboveBounceBackHeight_def)

lemma moveToFinalHeight_simps:
  "currentDoorHeight (moveToFinalHeight h up s) = h"
  "doorIsMoving (moveToFinalHeight h up s) =
     (if h < DOOR_HEIGHT_FEET \<and> h > 0 then \<not> doorIsMoving s else doorIsMoving s)"
  "lastDirectionWasUp (moveToFinalHeight h up s) =
     (if h < DOOR_HEIGHT_FEET \<and> h > 0 \<and> \<not> doorIsMoving s
      then \<not> lastDirectionWasUp s else lastDirectionWasUp s)"
  "timeouts (moveToFinalHeight h up s) = timeouts s"
  "pulses (moveToFinalHeight h up s) =
     (if h < DOOR_HEIGHT_FEET \<and> h > 0 then Suc (pulses s) else pulses s)"
  by (simp_all add: moveToFinalHeight_def Let_def log_line_simps pressButton_simps
      pulses_log_line pulses_update pulses_pressButton)

lemma moveToFinalHeight_console:
  "console (moveToFinalHeight h up s) =
     console s @ [MovingOver (calculateTimeToReachHeight h up (h < DOOR_HEIGHT_FEET \<and> h > 0) s)]
     @ (if h < DOOR_HEIGHT_FEET \<and> h > 0
        then [PressingButton, TurnedPinOff, TurnedPinOn, PressedButtonToStopDoor] else [])
     @ [CurrentHeightAfterHandling h, RequestHandled]"
  by (simp add: moveToFinalHeight_def Let_def log_line_simps pressButton_simps
      calculateTimeToReachHeight_def)

lemma handleHeightRequest_height:
  "currentDoorHeight (handleHeightRequest m h s) = correctHeightBounds h"
  by (simp add: handleHeightRequest_def Let_def moveToFinalHeight_simps)

lemma handleHeightRequest_pulses:
  "pulses (handleHeightRequest m h s) =
     pulses s
     + (if currentDoorHeight s > 0 \<and> currentDoorHeight s < DOOR_HEIGHT_FEET
           \<and> (correctHeightBounds h > currentDoorHeight s) = lastDirectionWasUp s
        then 2 else 0)
     + 1
     + (if correctHeightBounds h < DOOR_HEIGHT_FEET \<and> correctHeightBounds h > 0 then 1 else 0)"
  by (simp add: handleHeightRequest_def Let_def never_bounces log_line_simps
      moveToFinalHeight_simps pulses_log_line pulses_pressButton
      conditionallyDoDoublePress_simps)

lemma handleHeightRequest_flags:
  "doorIsMoving (handleHeightRequest m h s) =
     (if correctHeightBounds h < DOOR_HEIGHT_FEET \<and> correctHeightBounds h > 0
      then doorIsMoving s else \<not> doorIsMoving s)"
  "lastDirectionWasUp (handleHeightRequest m h s) =
     (((lastDirectionWasUp s
        \<noteq> (currentDoorHeight s > 0 \<and> currentDoorHeight s < DOOR_HEIGHT_FEET
           \<and> (correctHeightBounds h > currentDoorHeight s) = lastDirectionWasUp s))
        \<noteq> (\<not> doorIsMoving s))
        \<noteq> (correctHeightBounds h < DOOR_HEIGHT_FEET \<and> correctHeightBounds h > 0
           \<and> doorIsMoving s))"
  apply (simp add: handleHeightRequest_def Let_def never_bounces log_line_simps
      moveToFinalHeight_simps pressButton_simps conditionallyDoDoublePress_simps)
  apply (simp add: handleHeightRequest_def Let_def never_bounces log_line_simps
      moveToFinalHeight_simps pressButton_simps conditionallyDoDoublePress_simps)
  apply blast
  done

text \<open>Every request is a height request for its resolved target, after three log lines.\<close>

lemma handleRequest_unfold:
  "handleRequest m n s =
     handleHeightRequest To
       (case m of To \<Rightarrow> or_default n 0
        | Up \<Rightarrow> currentDoorHeight s + or_default n DOOR_HEIGHT_FEET
        | Down \<Rightarrow> currentDoorHeight s - or_default n DOOR_HEIGHT_FEET)
       (log_line (MovementAndNumber m n) (log_line (CurrentHeight (currentDoorHeight s))
          (log_line HandlingRequest s)))"
  by (cases m) (simp_all add: handleRequest_def handleDistanceRequest_def Let_def log_line_simps
     handleHeightRequest_def)

lemma handleRequest_height:
  "currentDoorHeight (handleRequest m n s) =
     correctHeightBounds (case m of To \<Rightarrow> or_default n 0
        | Up \<Rightarrow> currentDoorHeight s + or_default n DOOR_HEIGHT_FEET
        | Down \<Rightarrow> currentDoorHeight s - or_default n DOOR_HEIGHT_FEET)"
  by (simp add: handleRequest_unfold handleHeightRequest_height log_line_simps)

lemma handleRequest_bounds:
  "0 \<le> currentDoorHeight (handleRequest m n s)
   \<and> currentDoorHeight (handleRequest m n s) \<le> DOOR_HEIGHT_FEET"
  by (simp add: handleRequest_height correctHeightBounds_def DOOR_HEIGHT_FEET_def)

lemma handleRequests_append:
  "handleRequests (rs @ rs') s = handleRequests rs' (handleRequests rs s)"
  by (induction rs arbitrary: s) auto

lemma handleRequests_bounds:
  "0 \<le> currentDoorHeight s \<and> currentDoorHeight s \<le> DOOR_HEIGHT_FEET \<Longrightarrow>
   0 \<le> currentDoorHeight (handleRequests rs s)
   \<and> currentDoorHeight (handleRequests rs s) \<le> DOOR_HEIGHT_FEET"
proof (induction rs arbitrary: s)
  case Nil
  then show ?case by simp
next
  case (Cons r rs)
  obtain m n where r: "r = (m, n)" by (cases r)
  show ?case using Cons.IH[OF handleRequest_bounds[of m n s]] r by simp
qed

lemma initial_bounds:
  "0 \<le> currentDoorHeight initial \<and> currentDoorHeight initial \<le> DOOR_HEIGHT_FEET"
  by (simp add: initial_def DOOR_HEIGHT_FEET_def)

text \<open>The state after the first request \<open>to 7\<close> on a new handler: at rest at 7 feet,
  latched up.\<close>

lemma after_to_7:
  "currentDoorHeight (handleRequest To (Num 7) initial) = 7"
  "lastDirectionWasUp (handleRequest To (Num 7) initial) = True"
  "doorIsMoving (handleRequest To (Num 7) initial) = False"
  by (simp_all add: handleRequest_unfold handleHeightRequest_height handleHeightRequest_flags
      log_line_simps or_default_def correctHeightBounds_def DOOR_HEIGHT_FEET_def initial_def)

lemma stop_simps:
  "currentDoorHeight (stop s) = currentDoorHeight s"
  "timeouts (stop s) = []"
  "pulses (stop s) = pulses s + (if doorIsMoving s then 1 else 0)"
  "doorIsMoving (stop s) = False"
  by (simp_all add: stop_def Let_def log_line_simps pressButton_simps pulses_log_line
      pulses_update pulses_pressButton)

section \<open>Scripts and event loop agree with the operations\<close>

lemma run_script_simps:
  "run_script [] s = s"
  "run_script (a # k) s = run_script k (perform a s)"
  "run_script (k @ k') s = run_script k' (run_script k s)"
  by (simp_all add: run_script_def)

lemma conditionallyDoDoublePress_script_runs:
  "run_script (conditionallyDoDoublePress_script up s) s = conditionallyDoDoublePress up s"
  by (simp add: conditionallyDoDoublePress_script_def conditionallyDoDoublePress_def Let_def
      run_script_simps log_line_simps pressButton_simps)

lemma conditionallyDoDoublePress_script_log_line:
  "conditionallyDoDoublePress_script up (log_line e s) = conditionallyDoDoublePress_script up s"
  by (simp add: conditionallyDoDoublePress_script_def log_line_simps)

lemma handleBounceBack_script_runs:
  "run_script (handleBounceBack_script up) s = handleBounceBack up s"
  by (simp add: handleBounceBack_script_def handleBounceBack_def Let_def run_script_simps)

lemma handleHeightRequest_script_runs:
  "run_script (handleHeightRequest_script m h s) s = handleHeightRequest m h s"
  by (simp add: handleHeightRequest_script_def handleHeightRequest_def Let_def run_script_simps
      log_line_simps handleBounceBack_script_runs
      conditionallyDoDoublePress_script_runs[of _ "log_line _ _",
        unfolded conditionallyDoDoublePress_script_log_line])

lemma handleHeightRequest_script_log_line:
  "handleHeightRequest_script m h (log_line e s) = handleHeightRequest_script m h s"
  by (simp add: handleHeightRequest_script_def Let_def log_line_simps
      conditionallyDoDoublePress_script_log_line)

lemma handleHeightRequest_script_runs_logged:
  "run_script (handleHeightRequest_script m h s) (log_line e3 (log_line e2 (log_line e1 s)))
     = handleHeightRequest m h (log_line e3 (log_line e2 (log_line e1 s)))"
  using handleHeightRequest_script_runs[of m h "log_line e3 (log_line e2 (log_line e1 s))"]
  by (simp add: handleHeightRequest_script_log_line)

text \<open>Run without interruption, the script of a method is the method.\<close>

lemma handleRequest_script_runs:
  "run_script (handleRequest_script m n s) s = handleRequest m n s"
  by (simp add: handleHeightRequest_script_runs_logged handleRequest_script_def handleRequest_def
      handleDistanceRequest_script_def handleDistanceRequest_def Let_def run_script_simps
      log_line_simps)

lemma stop_script_runs: "run_script (stop_script s) s = stop s"
  by (simp add: stop_script_def stop_def Let_def run_script_simps log_line_simps)

lemma steps_add: "steps a m = Some m1 \<Longrightarrow> steps (a + b) m = steps b m1"
  by (induction a arbitrary: m) (auto split: option.splits)

lemma step_single:
  "timers m = [t] \<Longrightarrow>
   step m = Some (fire (snd (snd t)) (m\<lparr> clock := fst (snd t), timers := [] \<rparr>))"
  by (simp add: step_def)

lemma exec_Press:
  assumes "timers m = []"
  shows "\<exists>m2. steps 2 (exec (Press # k) m) = Some (exec k m2) \<and> timers m2 = []
           \<and> handler m2 = pressButton (handler m)"
proof -
  let ?t1 = "(next_handle m, clock m + max DOOR_OPENER_SIGNAL_HOLD_TIME_SEC 0.001, ButtonHeld k)"
  have t1: "timers (exec (Press # k) m) = [?t1]"
    using assms by (simp add: setTimeout_def)
  let ?m1 = "(exec (Press # k) m)\<lparr> clock := fst (snd ?t1), timers := [] \<rparr>"
  have s1: "step (exec (Press # k) m) = Some (fire (ButtonHeld k) ?m1)"
    using step_single[OF t1] by simp
  let ?t2 = "(next_handle ?m1, clock ?m1 + max MIN_TIME_BETWEEN_BUTTON_PRESSES_SEC 0.001,
              ButtonSpaced k)"
  have t2: "timers (fire (ButtonHeld k) ?m1) = [?t2]"
    by (simp add: setTimeout_def)
  let ?m2 = "(fire (ButtonHeld k) ?m1)\<lparr> clock := fst (snd ?t2), timers := [] \<rparr>"
  have s2: "step (fire (ButtonHeld k) ?m1) = Some (exec k ?m2)"
    using step_single[OF t2] by simp
  have "steps 2 (exec (Press # k) m) = Some (exec k ?m2)"
    using s1 s2 by (simp add: numeral_2_eq_2)
  moreover have "timers ?m2 = []" by simp
  moreover have "handler ?m2 = pressButton (handler m)"
    by (simp add: setTimeout_def pressButton_def)
  ultimately show ?thesis by blast
qed

lemma exec_Await:
  assumes "timers m = []"
  shows "\<exists>m2. steps 1 (exec (AwaitAboveBounceBackHeight # k) m) = Some (exec k m2)
           \<and> timers m2 = []
           \<and> handler m2 = waitForDoorToGetAboveBounceBackHeight (handler m)"
proof -
  obtain t where t: "timers (exec (AwaitAboveBounceBackHeight # k) m) = [t]"
    "snd (snd t) = AboveBounceBackHeight (DOOR_MAX_AUTO_BOUNCE_BACK_HEIGHT_FEET * 1.1) k"
    using assms by (simp add: Let_def push_timeout_def setTimeout_def)
  let ?m1 = "(exec (AwaitAboveBounceBackHeight # k) m)\<lparr> clock := fst (snd t), timers := [] \<rparr>"
  let ?m2 = "?m1\<lparr> handler := (pop_timeout (handler ?m1))
                  \<lparr> currentDoorHeight := DOOR_MAX_AUTO_BOUNCE_BACK_HEIGHT_FEET * 1.1 \<rparr> \<rparr>"
  have "step (exec (AwaitAboveBounceBackHeight # k) m) = Some (exec k ?m2)"
    using step_single[OF t(1)] t(2) by simp
  then have "steps 1 (exec (AwaitAboveBounceBackHeight # k) m) = Some (exec k ?m2)"
    by simp
  moreover have "timers ?m2 = []" by simp
  moreover have "handler ?m2 = waitForDoorToGetAboveBounceBackHeight (handler m)"
    by (simp add: Let_def push_timeout_def setTimeout_def pop_timeout_def
        waitForDoorToGetAboveBounceBackHeight_def)
  ultimately show ?thesis by blast
qed

lemma exec_Move:
  assumes "timers m = []"
  shows "\<exists>m2. steps 1 (exec (MoveToFinalHeight h up # k) m) = Some (exec (completion h @ k) m2)
           \<and> timers m2 = []
           \<and> run_script (completion h) (handler m2) = moveToFinalHeight h up (handler m)"
proof -
  obtain t where t: "timers (exec (MoveToFinalHeight h up # k) m) = [t]"
    "snd (snd t) = FinalHeight h (h < DOOR_HEIGHT_FEET \<and> h > 0) k"
    using assms by (simp add: Let_def push_timeout_def setTimeout_def)
  let ?m1 = "(exec (MoveToFinalHeight h up # k) m)\<lparr> clock := fst (snd t), timers := [] \<rparr>"
  let ?m2 = "?m1\<lparr> handler := pop_timeout (handler ?m1) \<rparr>"
  have "step (exec (MoveToFinalHeight h up # k) m) = Some (exec (completion h @ k) ?m2)"
    using step_single[OF t(1)] t(2) by (simp add: completion_def)
  then have "steps 1 (exec (MoveToFinalHeight h up # k) m) = Some (exec (completion h @ k) ?m2)"
    by simp
  moreover have "timers ?m2 = []" by simp
  moreover have "run_script (completion h) (handler ?m2) = moveToFinalHeight h up (handler m)"
    by (simp add: Let_def push_timeout_def setTimeout_def pop_timeout_def completion_def
        moveToFinalHeight_def run_script_simps log_line_simps)
  ultimately show ?thesis by blast
qed

lemma weight_completion: "sum_list (map weight (completion h)) \<le> 5"
  by (simp add: completion_def)

text \<open>
  A script started on an idle event loop runs to its end after finitely many timers, and
  the handler is then in the state the run-to-completion model computes. So the
  operations of the previous sections are what the event loop does when a request is
  left alone.
\<close>

theorem event_loop_agrees:
  "timers m = [] \<Longrightarrow>
   \<exists>n m'. steps n (exec k m) = Some m' \<and> timers m' = []
     \<and> handler m' = run_script k (handler m)"
proof (induction "sum_list (map weight k)" arbitrary: k m rule: less_induct)
  case less
  show ?case
  proof (cases k)
    case Nil
    have "steps 0 (exec [] m) = Some m" by simp
    then show ?thesis using Nil less.prems by (metis exec.simps(1) run_script_simps(1))
  next
    case (Cons a k')
    have smaller: "sum_list (map weight k') < sum_list (map weight k)"
      using Cons by (cases a) simp_all
    have simple: ?thesis
      if e: "exec (a # k') m = exec k' (m\<lparr> handler := perform a (handler m) \<rparr>)"
    proof -
      have "timers (m\<lparr> handler := perform a (handler m) \<rparr>) = []" using less.prems by simp
      from less.hyps[OF smaller this] obtain n m' where
        "steps n (exec k' (m\<lparr> handler := perform a (handler m) \<rparr>)) = Some m'" "timers m' = []"
        "handler m' = run_script k' (perform a (handler m))" by auto
      then show ?thesis using e Cons by (metis run_script_simps(2))
    qed
    show ?thesis
    proof (cases a)
      case Press
      from exec_Press[OF less.prems, of k'] obtain m2 where m2:
        "steps 2 (exec (Press # k') m) = Some (exec k' m2)" "timers m2 = []"
        "handler m2 = pressButton (handler m)" by blast
      from less.hyps[OF smaller m2(2)] obtain n m' where n:
        "steps n (exec k' m2) = Some m'" "timers m' = []" "handler m' = run_script k' (handler m2)"
        by blast
      have "steps (2 + n) (exec k m) = Some m'"
        using steps_add[OF m2(1), of n] n(1) Cons Press by simp
      moreover have "handler m' = run_script k (handler m)"
        using n(3) m2(3) Cons Press by (simp add: run_script_simps)
      ultimately show ?thesis using n(2) by blast
    next
      case AwaitAboveBounceBackHeight
      from exec_Await[OF less.prems, of k'] obtain m2 where m2:
        "steps 1 (exec (AwaitAboveBounceBackHeight # k') m) = Some (exec k' m2)" "timers m2 = []"
        "handler m2 = waitForDoorToGetAboveBounceBackHeight (handler m)" by blast
      from less.hyps[OF smaller m2(2)] obtain n m' where n:
        "steps n (exec k' m2) = Some m'" "timers m' = []" "handler m' = run_script k' (handler m2)"
        by blast
      have "steps (1 + n) (exec k m) = Some m'"
        using steps_add[OF m2(1), of n] n(1) Cons AwaitAboveBounceBackHeight by simp
      moreover have "handler m' = run_script k (handler m)"
        using n(3) m2(3) Cons AwaitAboveBounceBackHeight by (simp add: run_script_simps)
      ultimately show ?thesis using n(2) by blast
    next
      case (MoveToFinalHeight h up)
      from exec_Move[OF less.prems, of h up k'] obtain m2 where m2:
        "steps 1 (exec (MoveToFinalHeight h up # k') m) = Some (exec (completion h @ k') m2)"
        "timers m2 = []"
        "run_script (completion h) (handler m2) = moveToFinalHeight h up (handler m)" by blast
      have "sum_list (map weight (completion h @ k')) < sum_list (map weight k)"
        using weight_completion[of h] Cons MoveToFinalHeight by simp
      from less.hyps[OF this m2(2)] obtain n m' where n:
        "steps n (exec (completion h @ k') m2) = Some m'" "timers m' = []"
        "handler m' = run_script (completion h @ k') (handler m2)"
        by blast
      have "steps (1 + n) (exec k m) = Some m'"
        using steps_add[OF m2(1), of n] n(1) Cons MoveToFinalHeight by simp
      moreover have "handler m' = run_script k (handler m)"
        using n(3) m2(3) Cons MoveToFinalHeight by (simp add: run_script_simps)
      ultimately show ?thesis using n(2) by blast
    next
      case ClearTimeouts
      have t: "timers (clearTimeouts m) = []" using less.prems by (simp add: clearTimeouts_def)
      from less.hyps[OF smaller t] obtain n m' where n:
        "steps n (exec k' (clearTimeouts m)) = Some m'" "timers m' = []"
        "handler m' = run_script k' (handler (clearTimeouts m))" by blast
      have "steps n (exec k m) = Some m'"
        using n(1) Cons ClearTimeouts by simp
      moreover have "handler m' = run_script k (handler m)"
        using n(3) Cons ClearTimeouts by (simp add: run_script_simps clearTimeouts_def)
      ultimately show ?thesis using n(2) by blast
    qed (use simple in simp_all)
  qed
qed

theorem event_loop_agrees_witness:
  "timers started = []
   \<and> (\<exists>n m'. steps n (exec (handleRequest_script Up Null initial) started) = Some m'
         \<and> timers m' = []
         \<and> handler m' = run_script (handleRequest_script Up Null initial) (handler started))"
  using event_loop_agrees[of started "handleRequest_script Up Null initial"]
  by (simp add: started_def)

text \<open>
  In particular a request submitted to an idle handler resolves, and leaves the handler
  in the state \<open>handleRequest\<close> computes.
\<close>

corollary handleRequest_resolves:
  "timers m = [] \<Longrightarrow>
   \<exists>n m'. steps n (exec (handleRequest_script mv num (handler m)) m) = Some m'
     \<and> timers m' = [] \<and> handler m' = handleRequest mv num (handler m)"
  using event_loop_agrees[of m "handleRequest_script mv num (handler m)"]
  by (simp add: handleRequest_script_runs)

section \<open>Bounds, travel time and the pulse primitive\<close>

text \<open>
  Claim C8. For every real height \<open>h\<close>, \<open>correctHeightBounds h\<close> lies in the interval
  from 0 to \<open>DOOR_HEIGHT_FEET\<close>, it is \<open>max 0 (min DOOR_HEIGHT_FEET h)\<close>, and applying it
  twice is the same as applying it once.
\<close>

theorem correctHeightBounds_range_idem:
  "0 \<le> correctHeightBounds h \<and> correctHeightBounds h \<le> DOOR_HEIGHT_FEET
   \<and> correctHeightBounds h = max 0 (min DOOR_HEIGHT_FEET h)
   \<and> correctHeightBounds (correctHeightBounds h) = correctHeightBounds h"
  by (simp add: correctHeightBounds_def DOOR_HEIGHT_FEET_def)

text \<open>
  Claim C7. For every start height (the handler's current height), target height,
  direction and early-stop flag, the travel time is the distance between the two heights
  divided by the rate of the direction, less one pulse-hold time exactly when the motion
  stops early; the rate is the open rate going up and the close rate going down, and the
  two rates are different constants.
\<close>

theorem calculateTimeToReachHeight_formula:
  "calculateTimeToReachHeight target shouldGoUp stoppingEarly (s\<lparr> currentDoorHeight := start \<rparr>) =
     \<bar>target - start\<bar>
       / (if shouldGoUp then DOOR_OPEN_RATE_FEET_PER_SEC else DOOR_CLOSE_RATE_FEET_PER_SEC)
     - (if stoppingEarly then DOOR_OPENER_SIGNAL_HOLD_TIME_SEC else 0)
   \<and> calculateTimeToReachHeight target shouldGoUp stoppingEarly s =
     \<bar>target - currentDoorHeight s\<bar>
       / (if shouldGoUp then DOOR_OPEN_RATE_FEET_PER_SEC else DOOR_CLOSE_RATE_FEET_PER_SEC)
     - (if stoppingEarly then DOOR_OPENER_SIGNAL_HOLD_TIME_SEC else 0)
   \<and> DOOR_OPEN_RATE_FEET_PER_SEC \<noteq> DOOR_CLOSE_RATE_FEET_PER_SEC
   \<and> DOOR_OPEN_RATE_FEET_PER_SEC = DOOR_HEIGHT_FEET / DOOR_OPEN_TIME_SEC
   \<and> DOOR_CLOSE_RATE_FEET_PER_SEC = DOOR_HEIGHT_FEET / DOOR_CLOSE_TIME_SEC"
  using rates_differ
  by (simp add: calculateTimeToReachHeight_def DOOR_OPEN_RATE_FEET_PER_SEC_def
      DOOR_CLOSE_RATE_FEET_PER_SEC_def)

text \<open>
  Claim C9. Every call of \<open>pressButton\<close> toggles \<open>doorIsMoving\<close>; it flips
  \<open>lastDirectionWasUp\<close> exactly when the toggle takes \<open>doorIsMoving\<close> from false to
  true; it is one pulse; and after any even number of calls \<open>doorIsMoving\<close> has its
  earlier value.
\<close>

theorem pressButton_toggles:
  "doorIsMoving (pressButton s) = (\<not> doorIsMoving s)
   \<and> (lastDirectionWasUp (pressButton s) \<noteq> lastDirectionWasUp s)
       = (\<not> doorIsMoving s \<and> doorIsMoving (pressButton s))
   \<and> pulses (pressButton s) = pulses s + 1
   \<and> doorIsMoving ((pressButton ^^ (2 * n)) s) = doorIsMoving s"
  by (simp add: pressButton_simps pulses_pressButton pressButton_even_moving)

section \<open>Resolving a request\<close>

text \<open>
  Claim C10. At \<open>handleRequest\<close> an amount of zero is treated like an absent one: an
  \<open>up\<close> or \<open>down\<close> request with distance 0 is the height request for the current
  height plus or minus the full \<open>DOOR_HEIGHT_FEET\<close>, as with \<open>null\<close> or NaN, so from a
  state a sequence of requests reaches it ends at the top or at the floor; and a \<open>to\<close>
  request with an absent amount is the height request for 0.
\<close>

theorem zero_amount_is_absent:
  "handleRequest Up (Num 0) s =
     handleHeightRequest To (currentDoorHeight s + DOOR_HEIGHT_FEET)
       (log_line (MovementAndNumber Up (Num 0)) (log_line (CurrentHeight (currentDoorHeight s))
          (log_line HandlingRequest s)))
   \<and> handleRequest Down (Num 0) s =
     handleHeightRequest To (currentDoorHeight s - DOOR_HEIGHT_FEET)
       (log_line (MovementAndNumber Down (Num 0)) (log_line (CurrentHeight (currentDoorHeight s))
          (log_line HandlingRequest s)))
   \<and> handleRequest To Null s =
     handleHeightRequest To 0
       (log_line (MovementAndNumber To Null) (log_line (CurrentHeight (currentDoorHeight s))
          (log_line HandlingRequest s)))
   \<and> handleRequest To NaN s =
     handleHeightRequest To 0
       (log_line (MovementAndNumber To NaN) (log_line (CurrentHeight (currentDoorHeight s))
          (log_line HandlingRequest s)))
   \<and> handleDistanceRequest Up (Num 0) s = handleDistanceRequest Up Null s
   \<and> handleDistanceRequest Up (Num 0) s = handleDistanceRequest Up NaN s
   \<and> handleDistanceRequest Down (Num 0) s = handleDistanceRequest Down Null s
   \<and> handleDistanceRequest Down (Num 0) s = handleDistanceRequest Down NaN s
   \<and> currentDoorHeight (handleRequest Up (Num 0) (handleRequests rs initial)) = DOOR_HEIGHT_FEET
   \<and> currentDoorHeight (handleRequest Down (Num 0) (handleRequests rs initial)) = 0
   \<and> currentDoorHeight (handleRequest To Null s) = 0"
proof -
  have b: "0 \<le> currentDoorHeight (handleRequests rs initial)
           \<and> currentDoorHeight (handleRequests rs initial) \<le> DOOR_HEIGHT_FEET"
    using handleRequests_bounds[OF initial_bounds] .
  have u: "currentDoorHeight (handleRequest Up (Num 0) (handleRequests rs initial))
             = DOOR_HEIGHT_FEET"
    using b by (simp add: handleRequest_height or_default_def correctHeightBounds_def)
  have d: "currentDoorHeight (handleRequest Down (Num 0) (handleRequests rs initial)) = 0"
    using b by (simp add: handleRequest_height or_default_def correctHeightBounds_def)
  have t: "currentDoorHeight (handleRequest To Null s) = 0"
    by (simp add: handleRequest_height or_default_def correctHeightBounds_def
        DOOR_HEIGHT_FEET_def)
  show ?thesis using u d t
    by (simp add: handleRequest_unfold handleDistanceRequest_def or_default_def)
qed

text \<open>
  Claim C1. For every sequence of requests, each awaited before the next, starting from
  a state whose height is within the door (the new handler is one), the tracked height
  when the last request resolves is that request's clamped target: \<open>correctHeightBounds h\<close>
  for \<open>to h\<close>; \<open>DOOR_HEIGHT_FEET\<close> for \<open>up\<close> with no distance; 0 for \<open>down\<close> with no
  distance; and for \<open>up\<close> or \<open>down\<close> with a distance \<open>d\<close>, the clamped sum or
  difference of the height before the request and \<open>d\<close> (the whole door height when
  \<open>d\<close> is 0). This holds on every path of the handler, so also on those that do not
  enter the bounce-back path.
\<close>

theorem last_request_decides_height:
  assumes "0 \<le> currentDoorHeight s" "currentDoorHeight s \<le> DOOR_HEIGHT_FEET"
  shows "currentDoorHeight (handleRequests (rs @ [(To, Num h)]) s) = correctHeightBounds h
    \<and> currentDoorHeight (handleRequests (rs @ [(Up, Null)]) s) = DOOR_HEIGHT_FEET
    \<and> currentDoorHeight (handleRequests (rs @ [(Down, Null)]) s) = 0
    \<and> currentDoorHeight (handleRequests (rs @ [(Up, Num d)]) s)
        = correctHeightBounds (currentDoorHeight (handleRequests rs s)
            + (if d = 0 then DOOR_HEIGHT_FEET else d))
    \<and> currentDoorHeight (handleRequests (rs @ [(Down, Num d)]) s)
        = correctHeightBounds (currentDoorHeight (handleRequests rs s)
            - (if d = 0 then DOOR_HEIGHT_FEET else d))"
proof -
  have b: "0 \<le> currentDoorHeight (handleRequests rs s)
           \<and> currentDoorHeight (handleRequests rs s) \<le> DOOR_HEIGHT_FEET"
    using assms handleRequests_bounds by blast
  have t: "currentDoorHeight (handleRequests (rs @ [(To, Num h)]) s) = correctHeightBounds h"
    by (simp add: handleRequests_append handleRequest_height or_default_def
        correctHeightBounds_def)
  have u: "currentDoorHeight (handleRequests (rs @ [(Up, Null)]) s) = DOOR_HEIGHT_FEET"
    using b by (simp add: handleRequests_append handleRequest_height or_default_def
        correctHeightBounds_def)
  have d: "currentDoorHeight (handleRequests (rs @ [(Down, Null)]) s) = 0"
    using b by (simp add: handleRequests_append handleRequest_height or_default_def
        correctHeightBounds_def)
  show ?thesis using t u d
    by (simp add: handleRequests_append handleRequest_height or_default_def)
qed

theorem last_request_decides_height_witness:
  "0 \<le> currentDoorHeight initial \<and> currentDoorHeight initial \<le> DOOR_HEIGHT_FEET
   \<and> currentDoorHeight (handleRequests ([(To, Num 7), (Down, Num 3)] @ [(To, Num 9)]) initial)
       = DOOR_HEIGHT_FEET
   \<and> currentDoorHeight (handleRequests ([(To, Num 7), (Down, Num 3)] @ [(Up, Null)]) initial)
       = DOOR_HEIGHT_FEET
   \<and> currentDoorHeight (handleRequests ([(To, Num 7), (Down, Num 3)] @ [(Down, Null)]) initial)
       = 0
   \<and> currentDoorHeight (handleRequests ([(To, Num 7), (Down, Num 3)] @ [(Down, Num 3)]) initial)
       = 1"
proof -
  have h: "0 \<le> currentDoorHeight initial" "currentDoorHeight initial \<le> DOOR_HEIGHT_FEET"
    using initial_bounds by simp_all
  have four: "currentDoorHeight (handleRequests [(To, Num 7), (Down, Num 3)] initial) = 4"
    by (simp add: handleRequest_height after_to_7 or_default_def correctHeightBounds_def
        DOOR_HEIGHT_FEET_def)
  show ?thesis
    using h last_request_decides_height[OF h, of "[(To, Num 7), (Down, Num 3)]" 9 3] four
    by (simp add: correctHeightBounds_def DOOR_HEIGHT_FEET_def)
qed

text \<open>
  Claim C2, as stated, fails: the invariant does not hold after every mutation. On a new
  handler the request \<open>to 7\<close> leaves the door at rest at 7 feet, latched up; the
  double-press correction of a following request upward then adds the distance of one
  second at the open rate to the tracked height, without clamping, which takes it above
  \<open>DOOR_HEIGHT_FEET\<close>.
\<close>

theorem height_bounds_counterexample:
  "\<not> (0 \<le> currentDoorHeight (conditionallyDoDoublePress True (handleRequest To (Num 7) initial))
      \<and> currentDoorHeight (conditionallyDoDoublePress True (handleRequest To (Num 7) initial))
          \<le> DOOR_HEIGHT_FEET)"
  by (simp add: conditionallyDoDoublePress_simps after_to_7 DOOR_HEIGHT_FEET_def
      MIN_TIME_BETWEEN_BUTTON_PRESSES_SEC_def DOOR_OPENER_SIGNAL_HOLD_TIME_SEC_def
      DOOR_OPEN_RATE_FEET_PER_SEC_def DOOR_OPEN_TIME_SEC_def)

text \<open>
  Claim C2, amended. The tracked height is between 0 and \<open>DOOR_HEIGHT_FEET\<close> on a new
  handler and whenever a request has resolved, from whatever state it was submitted, so
  in every state a sequence of requests reaches; a pulse and an emergency stop do not
  change the tracked height.
\<close>

theorem height_bounds_when_resolved:
  "0 \<le> currentDoorHeight initial \<and> currentDoorHeight initial \<le> DOOR_HEIGHT_FEET
   \<and> 0 \<le> currentDoorHeight (handleRequest m n s)
   \<and> currentDoorHeight (handleRequest m n s) \<le> DOOR_HEIGHT_FEET
   \<and> 0 \<le> currentDoorHeight (handleRequests rs initial)
   \<and> currentDoorHeight (handleRequests rs initial) \<le> DOOR_HEIGHT_FEET
   \<and> currentDoorHeight (pressButton s) = currentDoorHeight s
   \<and> currentDoorHeight (stop s) = currentDoorHeight s"
  using initial_bounds handleRequest_bounds[of m n s] handleRequests_bounds[OF initial_bounds, of rs]
  by (simp add: pressButton_simps stop_simps)

text \<open>
  Claim C3, as stated, fails: on a new handler, at height 0, the request \<open>to 0\<close> issues
  a pulse and leaves \<open>doorIsMoving\<close> and \<open>lastDirectionWasUp\<close> changed.
\<close>

theorem same_height_request_counterexample:
  "\<not> (pulses (handleRequest To (Num (currentDoorHeight initial)) initial) = pulses initial
      \<and> currentDoorHeight (handleRequest To (Num (currentDoorHeight initial)) initial)
          = currentDoorHeight initial
      \<and> lastDirectionWasUp (handleRequest To (Num (currentDoorHeight initial)) initial)
          = lastDirectionWasUp initial
      \<and> doorIsMoving (handleRequest To (Num (currentDoorHeight initial)) initial)
          = doorIsMoving initial)"
  by (simp add: handleRequest_unfold handleHeightRequest_pulses log_line_simps pulses_log_line)

text \<open>
  Claim C3, amended. From a state whose height \<open>h\<close> is within the door, the request
  \<open>to h\<close> leaves the tracked height unchanged when it resolves. It is not free of
  pulses: the primary pulse is always issued, so at a limit there is one pulse and
  \<open>doorIsMoving\<close> is toggled; strictly between the limits there are two pulses when the
  door is latched up and four when it is not, and \<open>doorIsMoving\<close> is as before.
\<close>

theorem same_height_request_keeps_height:
  assumes "0 \<le> currentDoorHeight s" "currentDoorHeight s \<le> DOOR_HEIGHT_FEET"
  shows "currentDoorHeight (handleRequest To (Num (currentDoorHeight s)) s) = currentDoorHeight s
    \<and> pulses (handleRequest To (Num (currentDoorHeight s)) s) =
        pulses s + (if 0 < currentDoorHeight s \<and> currentDoorHeight s < DOOR_HEIGHT_FEET
                    then (if lastDirectionWasUp s then 2 else 4) else 1)
    \<and> doorIsMoving (handleRequest To (Num (currentDoorHeight s)) s) =
        (if 0 < currentDoorHeight s \<and> currentDoorHeight s < DOOR_HEIGHT_FEET
         then doorIsMoving s else \<not> doorIsMoving s)"
  using assms
  by (simp add: handleRequest_unfold handleHeightRequest_pulses handleHeightRequest_height
      handleHeightRequest_flags log_line_simps pulses_log_line
      or_default_def correctHeightBounds_def)

theorem same_height_request_keeps_height_witness:
  "0 \<le> currentDoorHeight (handleRequest To (Num 7) initial)
   \<and> currentDoorHeight (handleRequest To (Num 7) initial) \<le> DOOR_HEIGHT_FEET
   \<and> currentDoorHeight (handleRequest To (Num 7) (handleRequest To (Num 7) initial)) = 7
   \<and> pulses (handleRequest To (Num 7) (handleRequest To (Num 7) initial))
       = pulses (handleRequest To (Num 7) initial) + 2"
proof -
  have h: "0 \<le> currentDoorHeight (handleRequest To (Num 7) initial)"
    "currentDoorHeight (handleRequest To (Num 7) initial) \<le> DOOR_HEIGHT_FEET"
    using handleRequest_bounds[of To "Num 7" initial] by simp_all
  show ?thesis
    using h same_height_request_keeps_height[OF h]
    by (simp add: after_to_7 DOOR_HEIGHT_FEET_def)
qed

section \<open>The pulse sequence of a request\<close>

text \<open>The methods with the threshold as a parameter are the handler's at the shipped value.\<close>

lemma handleBounceBack_at_console:
  "console (handleBounceBack_at T up s) =
     console s @ [PressingButton, TurnedPinOff, TurnedPinOn, PressedButtonToBounceBack]
     @ (if up then []
        else [PressingButton, TurnedPinOff, TurnedPinOn, PressedButtonToStopAboveBounceBack,
              PressingButton, TurnedPinOff, TurnedPinOn, PressedButtonToGoDown])"
  by (simp add: handleBounceBack_at_def Let_def log_line_simps pressButton_simps
      waitForDoorToGetAboveBounceBackHeight_at_def)

lemma handleBounceBack_at_pulses:
  "pulses (handleBounceBack_at T up s) = pulses s + (if up then 1 else 3)"
  by (simp add: pulses_def handleBounceBack_at_console)

lemma waitForDoorToGetAboveBounceBackHeight_at_shipped:
  "waitForDoorToGetAboveBounceBackHeight_at DOOR_MAX_AUTO_BOUNCE_BACK_HEIGHT_FEET s
     = waitForDoorToGetAboveBounceBackHeight s"
  by (simp add: waitForDoorToGetAboveBounceBackHeight_at_def
      waitForDoorToGetAboveBounceBackHeight_def)

lemma handleBounceBack_at_shipped:
  "handleBounceBack_at DOOR_MAX_AUTO_BOUNCE_BACK_HEIGHT_FEET up s = handleBounceBack up s"
  by (simp add: handleBounceBack_at_def handleBounceBack_def
      waitForDoorToGetAboveBounceBackHeight_at_shipped)

lemma handleHeightRequest_at_shipped:
  "handleHeightRequest_at DOOR_MAX_AUTO_BOUNCE_BACK_HEIGHT_FEET m h s = handleHeightRequest m h s"
  by (simp add: handleHeightRequest_at_def handleHeightRequest_def Let_def
      handleBounceBack_at_shipped)

lemma handleHeightRequest_at_normal:
  assumes "\<not> (currentDoorHeight s \<le> T \<and> currentDoorHeight s > 0 \<and> \<not> lastDirectionWasUp s)"
  shows "handleHeightRequest_at T m h s = handleHeightRequest m h s"
proof -
  have f1: "(currentDoorHeight s \<le> T \<and> currentDoorHeight s > 0 \<and> \<not> lastDirectionWasUp s)
              = False"
    using assms by simp
  have f2: "(currentDoorHeight s \<le> DOOR_MAX_AUTO_BOUNCE_BACK_HEIGHT_FEET
              \<and> currentDoorHeight s > 0 \<and> \<not> lastDirectionWasUp s) = False"
    using never_bounces[of s] by simp
  show ?thesis
    by (simp only: handleHeightRequest_at_def handleHeightRequest_def Let_def log_line_simps
        f1 f2 if_False)
qed

lemma half_foot_latched_down_low:
  "currentDoorHeight half_foot_latched_down = (1 / 2)"
  "lastDirectionWasUp half_foot_latched_down = False"
  "doorIsMoving half_foot_latched_down = False"
proof -
  let ?a = "handleHeightRequest_at 1 To (1 / 2) initial"
  have a: "?a = handleHeightRequest To (1 / 2) initial"
    by (rule handleHeightRequest_at_normal) (simp add: initial_def)
  have a': "currentDoorHeight ?a = (1 / 2)" "lastDirectionWasUp ?a = True" "doorIsMoving ?a = False"
    unfolding a
    by (simp_all add: handleHeightRequest_height handleHeightRequest_flags
        correctHeightBounds_def DOOR_HEIGHT_FEET_def initial_def)
  let ?b = "handleHeightRequest_at 1 To 2 ?a"
  have b: "?b = handleHeightRequest To 2 ?a"
    by (rule handleHeightRequest_at_normal) (simp add: a')
  have b': "currentDoorHeight ?b = 2" "lastDirectionWasUp ?b = True" "doorIsMoving ?b = False"
    unfolding b
    by (simp_all add: handleHeightRequest_height handleHeightRequest_flags a'
        correctHeightBounds_def DOOR_HEIGHT_FEET_def)
  let ?c = "handleHeightRequest_at 1 To (1 / 2) ?b"
  have c: "?c = handleHeightRequest To (1 / 2) ?b"
    by (rule handleHeightRequest_at_normal) (simp add: b')
  have c': "currentDoorHeight ?c = (1 / 2)" "lastDirectionWasUp ?c = False" "doorIsMoving ?c = False"
    unfolding c
    by (simp_all add: handleHeightRequest_height handleHeightRequest_flags b'
        correctHeightBounds_def DOOR_HEIGHT_FEET_def)
  show "currentDoorHeight half_foot_latched_down = (1 / 2)"
    "lastDirectionWasUp half_foot_latched_down = False"
    "doorIsMoving half_foot_latched_down = False"
    using c' by (simp_all add: half_foot_latched_down_def)
qed

text \<open>
  Claim C6. A request takes the bounce-back path, in place of the normal pulse that
  starts the motion, exactly when the current height is at or below the bounce-back
  threshold, strictly above zero, and the last latched direction was not up. This is
  stated for every value \<open>T\<close> of the threshold, and the handler is the case where
  \<open>T\<close> is \<open>DOOR_MAX_AUTO_BOUNCE_BACK_HEIGHT_FEET\<close>. The two paths are told apart by
  what the request logs. On the bounce-back path the first thing after the announcement
  is the pulse that sends the door down to bounce back, no pulse is logged as the one
  that starts the motion, and the request issues one pulse when the target is above and
  three when it is not, before the pulse that stops it early. On the normal path
  \<open>PressedButtonToGo\<close> is logged with the direction and nothing of the bounce-back
  path is.
\<close>

theorem bounce_back_path:
  "handleHeightRequest m h s = handleHeightRequest_at DOOR_MAX_AUTO_BOUNCE_BACK_HEIGHT_FEET m h s
   \<and> (PressedButtonToBounceBack \<in> set (logged_since s (handleHeightRequest_at T m h s))
      \<longleftrightarrow> (currentDoorHeight s \<le> T \<and> currentDoorHeight s > 0 \<and> \<not> lastDirectionWasUp s))
   \<and> (PressedButtonToGo (if correctHeightBounds h > currentDoorHeight s then Up else Down)
         \<in> set (logged_since s (handleHeightRequest_at T m h s))
      \<longleftrightarrow> \<not> (currentDoorHeight s \<le> T \<and> currentDoorHeight s > 0 \<and> \<not> lastDirectionWasUp s))
   \<and> (if currentDoorHeight s \<le> T \<and> currentDoorHeight s > 0 \<and> \<not> lastDirectionWasUp s
       then take 5 (logged_since s (handleHeightRequest_at T m h s)) =
              [MovingTo (if correctHeightBounds h > currentDoorHeight s then Up else Down)
                 (correctHeightBounds h),
               PressingButton, TurnedPinOff, TurnedPinOn, PressedButtonToBounceBack]
            \<and> pulses (handleHeightRequest_at T m h s) =
                pulses s + (if correctHeightBounds h > currentDoorHeight s then 1 else 3)
                + (if correctHeightBounds h < DOOR_HEIGHT_FEET \<and> correctHeightBounds h > 0
                   then 1 else 0)
            \<and> PressedButtonToToggleOpenerState
                \<notin> set (logged_since s (handleHeightRequest_at T m h s))
       else PressedButtonToStopAboveBounceBack
                \<notin> set (logged_since s (handleHeightRequest_at T m h s))
            \<and> PressedButtonToGoDown \<notin> set (logged_since s (handleHeightRequest_at T m h s)))
   \<and> (PressedButtonToBounceBack \<in> set (logged_since s (handleHeightRequest m h s))
      \<longleftrightarrow> (currentDoorHeight s \<le> DOOR_MAX_AUTO_BOUNCE_BACK_HEIGHT_FEET
           \<and> currentDoorHeight s > 0 \<and> \<not> lastDirectionWasUp s))
   \<and> (PressedButtonToGo (if correctHeightBounds h > currentDoorHeight s then Up else Down)
         \<in> set (logged_since s (handleHeightRequest m h s))
      \<longleftrightarrow> \<not> (currentDoorHeight s \<le> DOOR_MAX_AUTO_BOUNCE_BACK_HEIGHT_FEET
             \<and> currentDoorHeight s > 0 \<and> \<not> lastDirectionWasUp s))"
proof -
  let ?bounce = "currentDoorHeight s \<le> T \<and> currentDoorHeight s > 0 \<and> \<not> lastDirectionWasUp s"
  let ?mv = "if correctHeightBounds h > currentDoorHeight s then Up else Down"
  have inst: "handleHeightRequest m h s
              = handleHeightRequest_at DOOR_MAX_AUTO_BOUNCE_BACK_HEIGHT_FEET m h s"
    by (simp add: handleHeightRequest_at_shipped)
  have enter: "PressedButtonToBounceBack \<in> set (logged_since s (handleHeightRequest_at T' m h s))
      \<longleftrightarrow> (currentDoorHeight s \<le> T' \<and> currentDoorHeight s > 0 \<and> \<not> lastDirectionWasUp s)" for T'
    by (simp add: logged_since_def handleHeightRequest_at_def Let_def moveToFinalHeight_console
        log_line_simps handleBounceBack_at_console conditionallyDoDoublePress_console
        pressButton_simps)
  have normal: "PressedButtonToGo ?mv \<in> set (logged_since s (handleHeightRequest_at T' m h s))
      \<longleftrightarrow> \<not> (currentDoorHeight s \<le> T' \<and> currentDoorHeight s > 0 \<and> \<not> lastDirectionWasUp s)" for T'
    by (simp add: logged_since_def handleHeightRequest_at_def Let_def moveToFinalHeight_console
        log_line_simps handleBounceBack_at_console conditionallyDoDoublePress_console
        pressButton_simps)
  have taken: "take 5 (logged_since s (handleHeightRequest_at T m h s)) =
              [MovingTo ?mv (correctHeightBounds h),
               PressingButton, TurnedPinOff, TurnedPinOn, PressedButtonToBounceBack]
            \<and> pulses (handleHeightRequest_at T m h s) =
                pulses s + (if correctHeightBounds h > currentDoorHeight s then 1 else 3)
                + (if correctHeightBounds h < DOOR_HEIGHT_FEET \<and> correctHeightBounds h > 0
                   then 1 else 0)
            \<and> PressedButtonToToggleOpenerState
                \<notin> set (logged_since s (handleHeightRequest_at T m h s))"
    if ?bounce
    using that
    by (simp add: logged_since_def handleHeightRequest_at_def Let_def moveToFinalHeight_console
        moveToFinalHeight_simps log_line_simps handleBounceBack_at_console pressButton_simps
        handleBounceBack_at_pulses pulses_log_line)
  have skipped: "PressedButtonToStopAboveBounceBack
                \<notin> set (logged_since s (handleHeightRequest_at T m h s))
            \<and> PressedButtonToGoDown \<notin> set (logged_since s (handleHeightRequest_at T m h s))"
    if "\<not> ?bounce"
    using that
    by (simp add: logged_since_def handleHeightRequest_at_def Let_def moveToFinalHeight_console
        log_line_simps handleBounceBack_at_console conditionallyDoDoublePress_console
        pressButton_simps)
  show ?thesis
    using inst enter[of T] normal[of T] taken skipped
      enter[of DOOR_MAX_AUTO_BOUNCE_BACK_HEIGHT_FEET]
      normal[of DOOR_MAX_AUTO_BOUNCE_BACK_HEIGHT_FEET]
    by (simp only: handleHeightRequest_at_shipped if_split simp_thms) blast
qed

text \<open>
  Both directions occur. With a threshold of one foot, the door that three requests have
  left half a foot up and latched down takes the bounce-back path for a request to 3
  feet: one pulse, then the stop pulse at 3 feet. The new handler, with the shipped
  threshold, takes the normal path.
\<close>

theorem bounce_back_path_witness:
  "PressedButtonToBounceBack
     \<in> set (logged_since half_foot_latched_down
              (handleHeightRequest_at 1 To 3 half_foot_latched_down))
   \<and> PressedButtonToGo Up
     \<notin> set (logged_since half_foot_latched_down
              (handleHeightRequest_at 1 To 3 half_foot_latched_down))
   \<and> pulses (handleHeightRequest_at 1 To 3 half_foot_latched_down)
       = pulses half_foot_latched_down + 2
   \<and> PressedButtonToGo Up \<in> set (logged_since initial (handleHeightRequest To 3 initial))
   \<and> PressedButtonToBounceBack \<notin> set (logged_since initial (handleHeightRequest To 3 initial))"
proof -
  have low: "currentDoorHeight half_foot_latched_down = 1 / 2"
    "lastDirectionWasUp half_foot_latched_down = False"
    by (simp_all add: half_foot_latched_down_low)
  have new: "currentDoorHeight initial = 0"
    by (simp add: initial_def)
  show ?thesis
    using bounce_back_path[of To 3 half_foot_latched_down 1, THEN conjunct2]
      bounce_back_path[of To 3 initial 1, THEN conjunct2]
    by (simp add: low new correctHeightBounds_def DOOR_HEIGHT_FEET_def
        DOOR_MAX_AUTO_BOUNCE_BACK_HEIGHT_FEET_def)
qed

text \<open>
  The double-press correction as the code has it. A request for the clamped target
  \<open>correctHeightBounds h\<close> takes it exactly when the current height is strictly
  between 0 and \<open>DOOR_HEIGHT_FEET\<close> and the desired direction (up when the target is
  above the current height) equals the last latched direction. On that path the request
  first logs two pulses, then the tracked height after them, then the primary pulse. The
  code moves the tracked height with the rate of the desired direction, the open rate
  upward and the close rate downward: by \<open>MIN_TIME_BETWEEN_BUTTON_PRESSES_SEC\<close> times
  the rate after the first pulse, and by \<open>DOOR_OPENER_SIGNAL_HOLD_TIME_SEC\<close> times the
  rate after the second. Off that path the primary pulse is the first thing after the
  announcement.
\<close>

lemma double_press_sequence:
  "(PressedButtonToToggleOpenerState \<in> set (logged_since s (handleHeightRequest m h s))
      \<longleftrightarrow> (0 < currentDoorHeight s \<and> currentDoorHeight s < DOOR_HEIGHT_FEET
           \<and> (correctHeightBounds h > currentDoorHeight s) = lastDirectionWasUp s))
   \<and> (if 0 < currentDoorHeight s \<and> currentDoorHeight s < DOOR_HEIGHT_FEET
           \<and> (correctHeightBounds h > currentDoorHeight s) = lastDirectionWasUp s
       then take 13 (logged_since s (handleHeightRequest m h s)) =
              [MovingTo (if correctHeightBounds h > currentDoorHeight s then Up else Down)
                 (correctHeightBounds h),
               PressingButton, TurnedPinOff, TurnedPinOn, PressedButtonToToggleOpenerState,
               PressingButton, TurnedPinOff, TurnedPinOn, PressedButtonToStopDoor,
               CurrentHeightAfterDoublePress (currentDoorHeight s
                 + MIN_TIME_BETWEEN_BUTTON_PRESSES_SEC
                     * (if correctHeightBounds h > currentDoorHeight s
                        then DOOR_OPEN_RATE_FEET_PER_SEC else - DOOR_CLOSE_RATE_FEET_PER_SEC)
                 + DOOR_OPENER_SIGNAL_HOLD_TIME_SEC
                     * (if correctHeightBounds h > currentDoorHeight s
                        then DOOR_OPEN_RATE_FEET_PER_SEC else - DOOR_CLOSE_RATE_FEET_PER_SEC)),
               PressingButton, TurnedPinOff, TurnedPinOn]
            \<and> pulses (conditionallyDoDoublePress (correctHeightBounds h > currentDoorHeight s) s)
                = pulses s + 2
            \<and> currentDoorHeight
                 (run_script
                    (take 3 (conditionallyDoDoublePress_script
                       (correctHeightBounds h > currentDoorHeight s) s)) s)
                = currentDoorHeight s
                  + MIN_TIME_BETWEEN_BUTTON_PRESSES_SEC
                      * (if correctHeightBounds h > currentDoorHeight s
                         then DOOR_OPEN_RATE_FEET_PER_SEC else - DOOR_CLOSE_RATE_FEET_PER_SEC)
            \<and> pulses
                 (run_script
                    (take 3 (conditionallyDoDoublePress_script
                       (correctHeightBounds h > currentDoorHeight s) s)) s)
                = pulses s + 1
       else take 4 (logged_since s (handleHeightRequest m h s)) =
              [MovingTo (if correctHeightBounds h > currentDoorHeight s then Up else Down)
                 (correctHeightBounds h),
               PressingButton, TurnedPinOff, TurnedPinOn]
            \<and> conditionallyDoDoublePress (correctHeightBounds h > currentDoorHeight s) s = s)"
  by (simp add: logged_since_def handleHeightRequest_def Let_def never_bounces
      moveToFinalHeight_console log_line_simps conditionallyDoDoublePress_console
      conditionallyDoDoublePress_simps pressButton_simps
      conditionallyDoDoublePress_script_def run_script_simps pulses_log_line pulses_update
      pulses_pressButton conditionallyDoDoublePress_def)

text \<open>
  Claim C5. The claim has the double-press correction advance the tracked height at the
  rate of the new direction, the one the first of the two pulses latches; that direction
  is opposite to the desired one, and the source comment on the second adjustment says
  the same (it accounts for movement opposite the desired direction). The code takes
  \<open>rate\<close> from \<open>shouldGoUp\<close>, the desired direction. On a new handler, after \<open>to 7\<close>
  the door is at rest at 7 feet, latched up. A request upward then takes the double-press
  path and issues its two pulses before the primary one, as the claim says; the first
  pulse starts the door and latches down, yet the tracked height goes up, by 0.75 seconds
  at the open rate between the pulses and by 0.25 seconds at the open rate after the
  second, and that height is what the request logs. At the rate of the new direction it
  would go down by the close rate.
\<close>

theorem double_press_advances_toward_target:
  "PressedButtonToToggleOpenerState
     \<in> set (logged_since (handleRequest To (Num 7) initial)
              (handleRequest Up Null (handleRequest To (Num 7) initial)))
   \<and> pulses (conditionallyDoDoublePress True (handleRequest To (Num 7) initial))
       = pulses (handleRequest To (Num 7) initial) + 2
   \<and> lastDirectionWasUp (handleRequest To (Num 7) initial)
   \<and> \<not> doorIsMoving (handleRequest To (Num 7) initial)
   \<and> doorIsMoving (pressButton (handleRequest To (Num 7) initial))
   \<and> \<not> lastDirectionWasUp (pressButton (handleRequest To (Num 7) initial))
   \<and> currentDoorHeight
         (run_script (take 3 (conditionallyDoDoublePress_script True
            (handleRequest To (Num 7) initial))) (handleRequest To (Num 7) initial))
       = 7 + MIN_TIME_BETWEEN_BUTTON_PRESSES_SEC * DOOR_OPEN_RATE_FEET_PER_SEC
   \<and> currentDoorHeight (conditionallyDoDoublePress True (handleRequest To (Num 7) initial))
       = 7 + MIN_TIME_BETWEEN_BUTTON_PRESSES_SEC * DOOR_OPEN_RATE_FEET_PER_SEC
           + DOOR_OPENER_SIGNAL_HOLD_TIME_SEC * DOOR_OPEN_RATE_FEET_PER_SEC
   \<and> CurrentHeightAfterDoublePress
         (7 + MIN_TIME_BETWEEN_BUTTON_PRESSES_SEC * DOOR_OPEN_RATE_FEET_PER_SEC
            + DOOR_OPENER_SIGNAL_HOLD_TIME_SEC * DOOR_OPEN_RATE_FEET_PER_SEC)
     \<in> set (logged_since (handleRequest To (Num 7) initial)
              (handleRequest Up Null (handleRequest To (Num 7) initial)))
   \<and> 7 - MIN_TIME_BETWEEN_BUTTON_PRESSES_SEC * DOOR_CLOSE_RATE_FEET_PER_SEC
       < currentDoorHeight (handleRequest To (Num 7) initial)
   \<and> currentDoorHeight (handleRequest To (Num 7) initial)
       < 7 + MIN_TIME_BETWEEN_BUTTON_PRESSES_SEC * DOOR_OPEN_RATE_FEET_PER_SEC"
proof -
  let ?s = "handleRequest To (Num 7) initial"
  have target: "correctHeightBounds (7 + or_default Null DOOR_HEIGHT_FEET) = DOOR_HEIGHT_FEET"
    by (simp add: or_default_def correctHeightBounds_def DOOR_HEIGHT_FEET_def)
  have above: "(7::real) < DOOR_HEIGHT_FEET"
    by (simp add: DOOR_HEIGHT_FEET_def)
  have gen: "PressedButtonToToggleOpenerState \<in> set (logged_since s (handleRequest Up Null s))
      \<and> CurrentHeightAfterDoublePress
         (7 + MIN_TIME_BETWEEN_BUTTON_PRESSES_SEC * DOOR_OPEN_RATE_FEET_PER_SEC
            + DOOR_OPENER_SIGNAL_HOLD_TIME_SEC * DOOR_OPEN_RATE_FEET_PER_SEC)
        \<in> set (logged_since s (handleRequest Up Null s))"
    if "currentDoorHeight s = 7" "lastDirectionWasUp s" for s
    using that above
    by (simp add: handleRequest_unfold logged_since_def handleHeightRequest_def Let_def
        never_bounces moveToFinalHeight_console log_line_simps conditionallyDoDoublePress_console
        conditionallyDoDoublePress_simps pressButton_simps target)
  have path: "PressedButtonToToggleOpenerState \<in> set (logged_since ?s (handleRequest Up Null ?s))"
    using gen[of ?s] by (simp add: after_to_7)
  have logged: "CurrentHeightAfterDoublePress
         (7 + MIN_TIME_BETWEEN_BUTTON_PRESSES_SEC * DOOR_OPEN_RATE_FEET_PER_SEC
            + DOOR_OPENER_SIGNAL_HOLD_TIME_SEC * DOOR_OPEN_RATE_FEET_PER_SEC)
     \<in> set (logged_since ?s (handleRequest Up Null ?s))"
    using gen[of ?s] by (simp add: after_to_7)
  have two: "pulses (conditionallyDoDoublePress True ?s) = pulses ?s + 2"
    using above by (simp add: conditionallyDoDoublePress_simps after_to_7)
  have first: "currentDoorHeight
         (run_script (take 3 (conditionallyDoDoublePress_script True ?s)) ?s)
       = 7 + MIN_TIME_BETWEEN_BUTTON_PRESSES_SEC * DOOR_OPEN_RATE_FEET_PER_SEC"
    using above
    by (simp add: conditionallyDoDoublePress_script_def Let_def run_script_simps after_to_7
        log_line_simps pressButton_simps)
  have both: "currentDoorHeight (conditionallyDoDoublePress True ?s)
       = 7 + MIN_TIME_BETWEEN_BUTTON_PRESSES_SEC * DOOR_OPEN_RATE_FEET_PER_SEC
           + DOOR_OPENER_SIGNAL_HOLD_TIME_SEC * DOOR_OPEN_RATE_FEET_PER_SEC"
    using above by (simp add: conditionallyDoDoublePress_simps after_to_7)
  have apart: "7 - MIN_TIME_BETWEEN_BUTTON_PRESSES_SEC * DOOR_CLOSE_RATE_FEET_PER_SEC
         < currentDoorHeight ?s"
    "currentDoorHeight ?s < 7 + MIN_TIME_BETWEEN_BUTTON_PRESSES_SEC * DOOR_OPEN_RATE_FEET_PER_SEC"
    by (simp_all add: after_to_7 MIN_TIME_BETWEEN_BUTTON_PRESSES_SEC_def
        DOOR_CLOSE_RATE_FEET_PER_SEC_def DOOR_OPEN_RATE_FEET_PER_SEC_def DOOR_HEIGHT_FEET_def
        DOOR_CLOSE_TIME_SEC_def DOOR_OPEN_TIME_SEC_def)
  show ?thesis
    using path logged two first both apart
    by (simp add: after_to_7 pressButton_simps)
qed

section \<open>Emergency stop\<close>

text \<open>
  What \<open>stop\<close> does by itself: it empties \<open>timeouts\<close>, issues one pulse exactly when
  the door is moving, and leaves the tracked height alone; and in the event loop none of
  the timers that were registered in \<open>timeouts\<close> is pending afterwards.
\<close>

lemma stop_alone:
  "timeouts (stop s) = []
   \<and> pulses (stop s) = pulses s + (if doorIsMoving s then 1 else 0)
   \<and> count_list (stop_script s) Press = (if doorIsMoving s then 1 else 0)
   \<and> currentDoorHeight (stop s) = currentDoorHeight s"
  by (simp add: stop_simps stop_script_def)

lemma clearTimeouts_cancels_registered:
  "timeouts (handler (clearTimeouts m)) = []
   \<and> set (map fst (timers (clearTimeouts m))) \<inter> set (timeouts (handler m)) = {}"
  by (auto simp: clearTimeouts_def)

lemma step_idle: "timers m = [] \<Longrightarrow> step m = None"
  by (simp add: step_def)

lemma steps_idle: "timers m = [] \<Longrightarrow> steps n m = Some m' \<Longrightarrow> m' = m"
  by (cases n) (simp_all add: step_idle)

lemma clearTimeouts_all_registered:
  "set (map fst (timers m)) \<subseteq> set (timeouts (handler m)) \<Longrightarrow>
   timers (clearTimeouts m) = []"
  by (auto simp: clearTimeouts_def filter_empty_conv)

text \<open>
  When every pending timer is registered in \<open>timeouts\<close>, as it is while a request
  waits on its completion timer or on the bounce-back timer, the stop does halt it:
  however many timers fire afterwards, the tracked height stays what it was at the stop,
  and at most the one pulse of the stop itself is issued.
\<close>

lemma stop_halts_request_on_registered_timer:
  assumes reg: "set (map fst (timers m)) \<subseteq> set (timeouts (handler m))"
    and st: "call_stop t m = Some m1"
    and run: "steps n m1 = Some m2"
  shows "currentDoorHeight (handler m2) = currentDoorHeight (handler m)
         \<and> pulses (handler m2) \<le> pulses (handler m) + 1"
proof -
  let ?m = "m\<lparr> clock := t,
                handler := log_line EmergencyStoppingDoor (log_line Dashes (handler m)) \<rparr>"
  have reg': "set (map fst (timers ?m)) \<subseteq> set (timeouts (handler ?m))"
    using reg by (simp add: log_line_simps)
  let ?c = "clearTimeouts ?m"
  have c: "timers ?c = []" using clearTimeouts_all_registered[OF reg'] .
  have hc: "currentDoorHeight (handler ?c) = currentDoorHeight (handler m)"
    "pulses (handler ?c) = pulses (handler m)"
    by (simp_all add: clearTimeouts_def log_line_simps pulses_update pulses_log_line)
  show ?thesis
  proof (cases "doorIsMoving (handler m)")
    case False
    have "m1 = exec [Say EmergencyStoppedDoor, Say Dashes] ?c"
      using st False by (simp add: call_stop_def arrive_def stop_script_def split: if_splits)
    then have m1: "timers m1 = []" "currentDoorHeight (handler m1) = currentDoorHeight (handler m)"
      "pulses (handler m1) = pulses (handler m)"
      using c hc by (simp_all add: log_line_simps pulses_log_line)
    from steps_idle[OF m1(1) run] m1 show ?thesis by simp
  next
    case True
    let ?k = "[Say PressedButtonToEmergencyStopDoor, Say EmergencyStoppedDoor, Say Dashes]"
    have m1: "m1 = exec (Press # ?k) ?c"
      using st True by (simp add: call_stop_def arrive_def stop_script_def split: if_splits)
    let ?t1 = "(next_handle ?c, clock ?c + max DOOR_OPENER_SIGNAL_HOLD_TIME_SEC 0.001,
                ButtonHeld ?k)"
    have t1: "timers m1 = [?t1]" using c m1 by (simp add: setTimeout_def)
    have h1: "currentDoorHeight (handler m1) = currentDoorHeight (handler m)"
      "pulses (handler m1) = pulses (handler m) + 1"
      using hc m1
      by (simp_all add: setTimeout_def pressButton_begin_def log_line_simps pulses_log_line)
    let ?a = "fire (ButtonHeld ?k) (m1\<lparr> clock := fst (snd ?t1), timers := [] \<rparr>)"
    have s1: "step m1 = Some ?a" using step_single[OF t1] by simp
    have ha: "currentDoorHeight (handler ?a) = currentDoorHeight (handler m)"
      "pulses (handler ?a) = pulses (handler m) + 1"
      using h1 by (simp_all add: setTimeout_def pressButton_release_def Let_def log_line_simps
          pulses_log_line pulses_update)
    obtain t2 where t2: "timers ?a = [t2]" "snd (snd t2) = ButtonSpaced ?k"
      by (simp add: setTimeout_def)
    let ?b = "exec ?k (?a\<lparr> clock := fst (snd t2), timers := [] \<rparr>)"
    have s2: "step ?a = Some ?b" using step_single[OF t2(1)] t2(2) by simp
    have hb: "currentDoorHeight (handler ?b) = currentDoorHeight (handler m)"
      "pulses (handler ?b) = pulses (handler m) + 1" "timers ?b = []"
      using ha by (simp_all add: log_line_simps pulses_log_line)
    consider "n = 0" | "n = 1" | k where "n = Suc (Suc k)" 
      by (metis One_nat_def not0_implies_Suc)
    then show ?thesis
    proof cases
      case 1
      then show ?thesis using run h1 by simp
    next
      case 2
      then show ?thesis using run s1 ha by simp
    next
      case 3
      then have "steps k ?b = Some m2" using run s1 s2 by simp
      from steps_idle[OF hb(3) this] hb show ?thesis by simp
    qed
  qed
qed

text \<open>
  A request that waits on its registered completion timer is cancelled for good. On a
  new handler \<open>to 3\<close> is submitted at time 0; after the two timers of its primary pulse
  it waits on the completion timer. The stop arrives at 2 seconds: it clears that timer
  and issues its own pulse. After the two timers of that pulse nothing is pending, the
  tracked height is still 0 and the door is not moving.
\<close>

lemma stop_cancels_completion_timer:
  "map_option observe
     (Option.bind (Option.bind (Option.bind (call_handleRequest 0 To (Num 3) started) (steps 2))
        (call_stop 2)) (steps 2))
   = Some (0, False,
       [HandlingRequest, CurrentHeight 0, MovementAndNumber To (Num 3), MovingTo Up 3,
        PressingButton, TurnedPinOff, TurnedPinOn, PressedButtonToGo Up,
        MovingOver (3 / DOOR_OPEN_RATE_FEET_PER_SEC - DOOR_OPENER_SIGNAL_HOLD_TIME_SEC),
        Dashes, EmergencyStoppingDoor, PressingButton, TurnedPinOff, TurnedPinOn,
        PressedButtonToEmergencyStopDoor, EmergencyStoppedDoor, Dashes], 0)"
  by (simp add: call_handleRequest_def call_stop_def arrive_def started_def initial_def
      handleRequest_script_def handleHeightRequest_script_def
      conditionallyDoDoublePress_script_def stop_script_def Let_def or_default_def
      correctHeightBounds_def calculateTimeToReachHeight_def
      setTimeout_def push_timeout_def pop_timeout_def clearTimeouts_def step_def observe_def
      pressButton_begin_def pressButton_release_def log_line_def numeral_2_eq_2
      DOOR_HEIGHT_FEET_def DOOR_MAX_AUTO_BOUNCE_BACK_HEIGHT_FEET_def
      DOOR_OPENER_SIGNAL_HOLD_TIME_SEC_def MIN_TIME_BETWEEN_BUTTON_PRESSES_SEC_def
      DOOR_OPEN_RATE_FEET_PER_SEC_def DOOR_OPEN_TIME_SEC_def)

text \<open>
  Claim C4. The claim says that after \<open>stop\<close> has resolved the tracked height is never
  changed by a request that was in flight before it. The code does not keep that for a
  request that is waiting inside a pulse, because the two timers of \<open>pressButton\<close> are
  never put on \<open>timeouts\<close>. On a new handler \<open>up\<close> with no distance is submitted at
  time 0 and waits on the hold timer of its primary pulse (due at 0.25 seconds). The stop
  arrives at 0.1 seconds: \<open>timeouts\<close> is empty and the door is not yet moving, so it
  clears nothing, issues no pulse and resolves; the tracked height is 0 and one timer is
  still pending. Three timers later the request has released the button (the door
  moves), registered its completion timer after the stop, and set the tracked height to
  \<open>DOOR_HEIGHT_FEET\<close>, with the door still marked as moving.
\<close>

theorem stop_leaves_request_in_pulse_running:
  "map_option observe
     (Option.bind (call_handleRequest 0 Up Null started) (call_stop 0.1))
   = Some (0, False,
       [HandlingRequest, CurrentHeight 0, MovementAndNumber Up Null,
        MovingTo Up DOOR_HEIGHT_FEET, PressingButton, TurnedPinOff,
        Dashes, EmergencyStoppingDoor, EmergencyStoppedDoor, Dashes], 1)
   \<and> map_option observe
     (Option.bind (Option.bind (call_handleRequest 0 Up Null started) (call_stop 0.1)) (steps 3))
   = Some (DOOR_HEIGHT_FEET, True,
       [HandlingRequest, CurrentHeight 0, MovementAndNumber Up Null,
        MovingTo Up DOOR_HEIGHT_FEET, PressingButton, TurnedPinOff,
        Dashes, EmergencyStoppingDoor, EmergencyStoppedDoor, Dashes,
        TurnedPinOn, PressedButtonToGo Up, MovingOver DOOR_OPEN_TIME_SEC,
        CurrentHeightAfterHandling DOOR_HEIGHT_FEET, RequestHandled], 0)"
  by (simp add: call_handleRequest_def call_stop_def arrive_def started_def initial_def
      handleRequest_script_def handleDistanceRequest_script_def handleHeightRequest_script_def
      conditionallyDoDoublePress_script_def stop_script_def Let_def or_default_def
      correctHeightBounds_def calculateTimeToReachHeight_def
      setTimeout_def push_timeout_def pop_timeout_def clearTimeouts_def step_def observe_def
      pressButton_begin_def pressButton_release_def log_line_def numeral_3_eq_3
      DOOR_HEIGHT_FEET_def DOOR_MAX_AUTO_BOUNCE_BACK_HEIGHT_FEET_def
      DOOR_OPENER_SIGNAL_HOLD_TIME_SEC_def MIN_TIME_BETWEEN_BUTTON_PRESSES_SEC_def
      DOOR_OPEN_RATE_FEET_PER_SEC_def DOOR_OPEN_TIME_SEC_def)

end
